theory Spec2Isabelle
  imports Complex_Main
begin

section \<open>The Information Sieve: layering and orchestration (sieve.py)\<close>

text \<open>
  The development embeds \<^verbatim>\<open>sieve.py\<close>: the classes \<^verbatim>\<open>Sieve\<close> and
  \<^verbatim>\<open>SieveLayer\<close>. The two collaborators \<^verbatim>\<open>corex.Corex\<close> and
  \<^verbatim>\<open>remainder.Remainder\<close> are imported by the module and are not part of it: a fitted
  instance of either is a record of the attributes and methods that \<^verbatim>\<open>sieve.py\<close>
  reads, and their constructors are parameters (record \<open>ext\<close>).

  Numbers: array cells, labels and residual codes are integers (\<open>int\<close>). The statistics
  \<^verbatim>\<open>tc\<close>, \<^verbatim>\<open>mi\<close> and \<^verbatim>\<open>h\<close> are Python floats; a float is embedded as the
  \<open>real\<close> it denotes. The bounds \<^verbatim>\<open>lb\<close> and \<^verbatim>\<open>ub\<close> are stated as exact sums.
  Where the code decides its control flow on computed floats (the acceptance test of
  \<^verbatim>\<open>fit\<close>), every operation is Python's float operation, whose result is rounded:
  float addition, subtraction and division are the parameters \<open>fl_add\<close>, \<open>fl_sub\<close> and
  \<open>fl_div\<close>, so that what is proved of the test holds for the arithmetic of the interpreter.

  Exceptions are values: every function that can raise returns \<open>error + 'a\<close>. The
  collaborators are total functions; what they raise is outside \<^verbatim>\<open>sieve.py\<close>.

  Of the keyword arguments only \<^verbatim>\<open>k_max\<close> is read by \<^verbatim>\<open>sieve.py\<close> (besides
  \<^verbatim>\<open>verbose\<close>, which only prints); the others reach \<^verbatim>\<open>Corex\<close> and are part of
  the parameter \<open>corex_fit\<close>. The properties \<^verbatim>\<open>tcs\<close>, \<^verbatim>\<open>tc\<close>, \<^verbatim>\<open>mis\<close>,
  \<^verbatim>\<open>clusters\<close> and the method \<^verbatim>\<open>predict\<close> are not embedded.
\<close>

subsection \<open>Errors and Python indexing\<close>

datatype error = ValueError | IndexError | AttributeError | ZeroDivisionError

text \<open>\<^verbatim>\<open>xs[i]\<close> on a Python list or a 1-D array: a negative index counts from the end,
  an index outside \<open>-len .. len-1\<close> raises IndexError.\<close>

definition py_index :: "'a list \<Rightarrow> int \<Rightarrow> error + 'a" where
  "py_index xs i =
     (if 0 \<le> i \<and> i < int (length xs) then Inr (xs ! nat i)
      else if - int (length xs) \<le> i \<and> i < 0 then Inr (xs ! nat (int (length xs) + i))
      else Inl IndexError)"

subsection \<open>Arrays\<close>

text \<open>
  A 2-D integer array of shape \<open>(length rows, n_cols)\<close>, stored by rows. The column count
  is kept apart from the rows because an array with no rows still has one.
\<close>

datatype matrix = Matrix (n_cols: nat) (rows: "int list list")

definition n_rows :: "matrix \<Rightarrow> nat" where
  "n_rows x = length (rows x)"

definition mat_wf :: "matrix \<Rightarrow> bool" where
  "mat_wf x = list_all (\<lambda>r. length r = n_cols x) (rows x)"

text \<open>\<^verbatim>\<open>x[:, i]\<close> for \<open>0 \<le> i < n_cols x\<close>.\<close>

definition col :: "matrix \<Rightarrow> nat \<Rightarrow> int list" where
  "col x i = map (\<lambda>r. r ! i) (rows x)"

text \<open>
  What \<^verbatim>\<open>np.array(list_of_1d_arrays)\<close> can build: from no array at all the empty 1-D
  array of shape \<open>(0,)\<close>; from arrays of one common length a 2-D array; from arrays of
  different lengths a 1-D array of objects.
\<close>

datatype ndarray = Arr1 "int list" | ArrObj "int list list" | Arr2 matrix

fun shape :: "ndarray \<Rightarrow> nat list" where
  "shape (Arr1 xs) = [length xs]"
| "shape (ArrObj xs) = [length xs]"
| "shape (Arr2 x) = [n_rows x, n_cols x]"

text \<open>\<^verbatim>\<open>np.array(cols).T\<close>: the arrays of the list become the columns of the result.\<close>

fun np_array_T :: "int list list \<Rightarrow> ndarray" where
  "np_array_T [] = Arr1 []"
| "np_array_T (c # cs) =
     (if list_all (\<lambda>c'. length c' = length c) cs
      then Arr2 (Matrix (Suc (length cs))
                  (map (\<lambda>j. map (\<lambda>c'. c' ! j) (c # cs)) [0..<length c]))
      else ArrObj (c # cs))"

text \<open>\<^verbatim>\<open>np.hstack([a, b])\<close> of two 2-D arrays: the row counts must agree.\<close>

definition np_hstack :: "matrix \<Rightarrow> matrix \<Rightarrow> error + matrix" where
  "np_hstack a b =
     (if n_rows a = n_rows b
      then Inr (Matrix (n_cols a + n_cols b) (map2 (@) (rows a) (rows b)))
      else Inl ValueError)"

text \<open>\<^verbatim>\<open>labels[:, np.newaxis]\<close>: a 1-D array as a single column.\<close>

definition newaxis_col :: "int list \<Rightarrow> matrix" where
  "newaxis_col ls = Matrix 1 (map (\<lambda>l. [l]) ls)"

text \<open>\<^verbatim>\<open>x[:, -1:]\<close>: the last column as a 2-D block (no column when \<open>x\<close> has none).\<close>

definition last_col_block :: "matrix \<Rightarrow> matrix" where
  "last_col_block x =
     Matrix (min 1 (n_cols x)) (map (\<lambda>r. drop (n_cols x - 1) r) (rows x))"

text \<open>\<^verbatim>\<open>np.bincount(vs)\<close> for non-negative \<open>vs\<close>: entry \<open>j\<close> counts the occurrences of
  \<open>j\<close>, for \<open>j\<close> up to the largest value; empty for no value.\<close>

definition np_bincount :: "int list \<Rightarrow> nat list" where
  "np_bincount vs =
     (if vs = [] then []
      else map (\<lambda>j. count_list vs (int j)) [0..<Suc (nat (fold max vs 0))])"



subsection \<open>The collaborators\<close>

text \<open>A fitted \<^verbatim>\<open>Remainder\<close>: \<^verbatim>\<open>transform(x_col, labels)\<close>,
  \<^verbatim>\<open>predict(labels, codes)\<close>, and the statistics \<^verbatim>\<open>mi\<close> and \<^verbatim>\<open>h\<close>.\<close>

record remainder =
  rm_transform :: "int list \<Rightarrow> int list \<Rightarrow> int list"
  rm_predict :: "int list \<Rightarrow> int list \<Rightarrow> int list"
  rm_mi :: real
  rm_h :: real

text \<open>A fitted \<^verbatim>\<open>Corex\<close>: \<^verbatim>\<open>labels\<close>, \<^verbatim>\<open>transform(x)\<close> and \<^verbatim>\<open>tc\<close>.\<close>

record corex =
  cx_labels :: "int list"
  cx_transform :: "matrix \<Rightarrow> int list"
  cx_tc :: real

text \<open>What \<^verbatim>\<open>sieve.py\<close> takes from outside: the constructors
  \<^verbatim>\<open>Corex(**kwargs).fit(x)\<close> and \<^verbatim>\<open>Remainder(xs, ys, k_max=k_max)\<close>, and Python's float
  operations \<^verbatim>\<open>a + b\<close>, \<^verbatim>\<open>a - b\<close> and \<^verbatim>\<open>a / b\<close> on finite floats (each result is
  the exact result rounded to a float).\<close>

record ext =
  corex_fit :: "matrix \<Rightarrow> corex"
  remainder_new :: "int list \<Rightarrow> int list \<Rightarrow> int \<Rightarrow> remainder"
  fl_add :: "real \<Rightarrow> real \<Rightarrow> real"
  fl_sub :: "real \<Rightarrow> real \<Rightarrow> real"
  fl_div :: "real \<Rightarrow> real \<Rightarrow> real"

subsection \<open>SieveLayer\<close>

record layer =
  corex :: corex
  labels :: "int list"
  remainders :: "remainder list"

text \<open>\<^verbatim>\<open>ys[xs >= 0]\<close>: selection by a boolean mask, which must be as long as \<open>ys\<close>.\<close>

definition mask_nonneg :: "int list \<Rightarrow> int list \<Rightarrow> error + int list" where
  "mask_nonneg xs ys =
     (if length xs = length ys
      then Inr (map snd (filter (\<lambda>(v, y). 0 \<le> v) (zip xs ys)))
      else Inl IndexError)"

text \<open>One \<^verbatim>\<open>Remainder\<close> per column of \<open>x\<close> (the loop over \<^verbatim>\<open>x.T\<close>).\<close>

fun new_remainders :: "ext \<Rightarrow> int \<Rightarrow> int list \<Rightarrow> int list list \<Rightarrow> error + remainder list" where
  "new_remainders e k_max ls [] = Inr []"
| "new_remainders e k_max ls (xs # cs) =
     (case mask_nonneg xs ls of
        Inl err \<Rightarrow> Inl err
      | Inr ys \<Rightarrow>
          (case new_remainders e k_max ls cs of
             Inl err \<Rightarrow> Inl err
           | Inr rs \<Rightarrow> Inr (remainder_new e (filter (\<lambda>v. 0 \<le> v) xs) ys k_max # rs)))"

text \<open>\<^verbatim>\<open>SieveLayer.__init__(x, **kwargs)\<close>; \<open>k_max\<close> is \<^verbatim>\<open>kwargs.pop('k_max', 2)\<close>.\<close>

definition SieveLayer_init :: "ext \<Rightarrow> int option \<Rightarrow> matrix \<Rightarrow> error + layer" where
  "SieveLayer_init e kw x =
     (let k_max = (case kw of None \<Rightarrow> 2 | Some k \<Rightarrow> k);
          cx = corex_fit e x
      in case new_remainders e k_max (cx_labels cx) (map (col x) [0..<n_cols x]) of
           Inl err \<Rightarrow> Inl err
         | Inr rs \<Rightarrow> Inr \<lparr>corex = cx, labels = cx_labels cx, remainders = rs\<rparr>)"

text \<open>The list comprehension of \<^verbatim>\<open>SieveLayer.transform\<close>:
  \<^verbatim>\<open>[self.remainders[i].transform(x[:, i], labels) for i in range(x.shape[1])]\<close>.\<close>

fun transform_cols :: "remainder list \<Rightarrow> matrix \<Rightarrow> int list \<Rightarrow> nat list \<Rightarrow> error + int list list" where
  "transform_cols rs x ls [] = Inr []"
| "transform_cols rs x ls (i # is) =
     (case py_index rs (int i) of
        Inl err \<Rightarrow> Inl err
      | Inr r \<Rightarrow>
          (case transform_cols rs x ls is of
             Inl err \<Rightarrow> Inl err
           | Inr cs \<Rightarrow> Inr (rm_transform r (col x i) ls # cs)))"

text \<open>\<^verbatim>\<open>np.hstack([xr, labels[:, np.newaxis]])\<close>: a 1-D \<open>xr\<close> cannot be stacked with the
  2-D label column.\<close>

definition hstack_labels :: "ndarray \<Rightarrow> int list \<Rightarrow> error + matrix" where
  "hstack_labels xr ls =
     (case xr of Arr2 m \<Rightarrow> np_hstack m (newaxis_col ls) | _ \<Rightarrow> Inl ValueError)"

definition SieveLayer_transform :: "layer \<Rightarrow> matrix \<Rightarrow> error + matrix" where
  "SieveLayer_transform ly x =
     (let ls = cx_transform (corex ly) x
      in case transform_cols (remainders ly) x ls [0..<n_cols x] of
           Inl err \<Rightarrow> Inl err
         | Inr cs \<Rightarrow> hstack_labels (np_array_T cs) ls)"

text \<open>The list comprehension of \<^verbatim>\<open>SieveLayer.invert\<close>:
  \<^verbatim>\<open>[self.remainders[i].predict(ys, xr[:, i]) for i in range(xr.shape[1] - 1)]\<close>.\<close>

fun predict_cols :: "remainder list \<Rightarrow> matrix \<Rightarrow> int list \<Rightarrow> nat list \<Rightarrow> error + int list list" where
  "predict_cols rs xr ys [] = Inr []"
| "predict_cols rs xr ys (i # is) =
     (case py_index rs (int i) of
        Inl err \<Rightarrow> Inl err
      | Inr r \<Rightarrow>
          (case predict_cols rs xr ys is of
             Inl err \<Rightarrow> Inl err
           | Inr cs \<Rightarrow> Inr (rm_predict r ys (col xr i) # cs)))"

text \<open>\<^verbatim>\<open>SieveLayer.invert(xr)\<close>: \<^verbatim>\<open>xr[:, -1]\<close> raises IndexError on a 1-D array and
  on a 2-D array with no column.\<close>

fun SieveLayer_invert :: "layer \<Rightarrow> ndarray \<Rightarrow> error + ndarray" where
  "SieveLayer_invert ly (Arr2 xr) =
     (if n_cols xr = 0 then Inl IndexError
      else let ys = col xr (n_cols xr - 1)
           in case predict_cols (remainders ly) xr ys [0..<n_cols xr - 1] of
                Inl err \<Rightarrow> Inl err
              | Inr cs \<Rightarrow> Inr (np_array_T cs))"
| "SieveLayer_invert ly _ = Inl IndexError"

definition layer_lb :: "layer \<Rightarrow> real" where
  "layer_lb ly = sum_list (map rm_mi (remainders ly))"

definition layer_ub :: "layer \<Rightarrow> real" where
  "layer_ub ly = sum_list (map (\<lambda>r. 2 * rm_h r) (remainders ly))"

subsection \<open>Sieve\<close>

record sieve =
  max_layers :: int
  kwargs :: "int option"
  layers :: "layer list"
  x_stats :: "nat list list"
  n_variables :: "nat option"

text \<open>\<^verbatim>\<open>Sieve.__init__\<close>; \<open>n_variables\<close> is only set by \<^verbatim>\<open>fit\<close>.\<close>

definition Sieve_init :: "int \<Rightarrow> int option \<Rightarrow> sieve" where
  "Sieve_init ml kw =
     \<lparr>max_layers = ml, kwargs = kw, layers = [], x_stats = [], n_variables = None\<rparr>"

definition Sieve_labels :: "sieve \<Rightarrow> ndarray" where
  "Sieve_labels s = np_array_T (map labels (layers s))"

definition Sieve_lb :: "sieve \<Rightarrow> real" where
  "Sieve_lb s = sum_list (map layer_lb (layers s))"

definition Sieve_ub :: "sieve \<Rightarrow> real" where
  "Sieve_ub s = sum_list (map layer_ub (layers s))"

function Sieve_transform :: "sieve \<Rightarrow> matrix \<Rightarrow> int \<Rightarrow> matrix option \<Rightarrow> error + (matrix \<times> matrix)" where
  "Sieve_transform s x lay prev_labels =
     (case py_index (layers s) lay of
        Inl err \<Rightarrow> Inl err
      | Inr ly \<Rightarrow>
          (case SieveLayer_transform ly x of
             Inl err \<Rightarrow> Inl err
           | Inr x_out \<Rightarrow>
               (case (case prev_labels of
                        None \<Rightarrow> Inr (last_col_block x_out)
                      | Some p \<Rightarrow> np_hstack p (last_col_block x_out)) of
                  Inl err \<Rightarrow> Inl err
                | Inr lbs \<Rightarrow>
                    if lay = int (length (layers s)) - 1 then Inr (x_out, lbs)
                    else Sieve_transform s x_out (lay + 1) (Some lbs))))"
  by pat_completeness auto
termination
  by (relation "measure (\<lambda>(s, x, lay, p). nat (int (length (layers s)) - lay))")
     (auto simp: py_index_def split: if_splits)

declare Sieve_transform.simps [simp del]

function Sieve_invert :: "sieve \<Rightarrow> ndarray \<Rightarrow> int option \<Rightarrow> error + ndarray" where
  "Sieve_invert s x lay_opt =
     (let lay = (case lay_opt of None \<Rightarrow> int (length (layers s)) - 1 | Some l \<Rightarrow> l)
      in if lay = 0
         then (case py_index (layers s) lay of
                 Inl err \<Rightarrow> Inl err
               | Inr ly \<Rightarrow> SieveLayer_invert ly x)
         else (case py_index (layers s) lay of
                 Inl err \<Rightarrow> Inl err
               | Inr ly \<Rightarrow>
                   (case SieveLayer_invert ly x of
                      Inl err \<Rightarrow> Inl err
                    | Inr x' \<Rightarrow> Sieve_invert s x' (Some (lay - 1)))))"
  by pat_completeness auto
termination
  by (relation "measure (\<lambda>(s, x, lo).
        (let lay = (case lo of None \<Rightarrow> int (length (layers s)) - 1 | Some l \<Rightarrow> l)
         in if 0 \<le> lay then nat lay else nat (int (length (layers s)) + 1 + lay)))")
     (auto simp: py_index_def Let_def split: if_splits option.splits)

declare Sieve_invert.simps [simp del]

subsection \<open>Sieve.fit\<close>

text \<open>\<^verbatim>\<open>next_layer.lb\<close> as \<^verbatim>\<open>fit\<close> computes it:
  \<^verbatim>\<open>sum(r.mi for r in self.remainders)\<close> adds the floats from the left, starting from 0.\<close>

definition float_lb :: "ext \<Rightarrow> layer \<Rightarrow> real" where
  "float_lb e ly = foldl (fl_add e) 0 (map rm_mi (remainders ly))"

text \<open>The acceptance test \<^verbatim>\<open>next_layer.corex.tc - next_layer.lb > 1. / n_samples\<close>,
  for \<open>n_samples \<noteq> 0\<close>: a float subtraction, a float division, and the comparison of
  the two floats.\<close>

definition accepts :: "ext \<Rightarrow> nat \<Rightarrow> layer \<Rightarrow> bool" where
  "accepts e n_samples ly =
     (fl_sub e (cx_tc (corex ly)) (float_lb e ly) > fl_div e 1 (real n_samples))"

text \<open>\<^verbatim>\<open>[np.bincount(x[x[:, i] >= 0, i]) for i in range(self.n_variables)]\<close>.\<close>

fun fit_x_stats :: "matrix \<Rightarrow> nat list \<Rightarrow> error + nat list list" where
  "fit_x_stats x [] = Inr []"
| "fit_x_stats x (i # is) =
     (if i < n_cols x
      then (case fit_x_stats x is of
              Inl err \<Rightarrow> Inl err
            | Inr hs \<Rightarrow> Inr (np_bincount (filter (\<lambda>v. 0 \<le> v) (col x i)) # hs))
      else Inl IndexError)"

text \<open>The \<^verbatim>\<open>while\<close> loop of \<^verbatim>\<open>fit\<close>. The state is the object and the local
  \<open>x\<close>; \<open>n_samples\<close> is fixed before the loop. \<^verbatim>\<open>break\<close> and the end of the loop
  both return the object. The constructor calls are an effect of the loop: \<open>built\<close> lists
  the \<^verbatim>\<open>SieveLayer\<close> objects constructed so far, in order, and is returned with the
  object.\<close>

function fit_loop ::
  "ext \<Rightarrow> nat \<Rightarrow> sieve \<Rightarrow> matrix \<Rightarrow> layer list \<Rightarrow> error + (sieve \<times> layer list)" where
  "fit_loop e n_samples s x built =
     (if int (length (layers s)) < max_layers s
      then (case SieveLayer_init e (kwargs s) x of
              Inl err \<Rightarrow> Inl err
            | Inr next_layer \<Rightarrow>
                (case SieveLayer_transform next_layer x of
                   Inl err \<Rightarrow> Inl err
                 | Inr x' \<Rightarrow>
                     if n_samples = 0 then Inl ZeroDivisionError
                     else if accepts e n_samples next_layer
                     then (case n_variables s of
                             None \<Rightarrow> Inl AttributeError
                           | Some nv \<Rightarrow>
                               (case fit_x_stats x' [0..<nv] of
                                  Inl err \<Rightarrow> Inl err
                                | Inr st \<Rightarrow>
                                    fit_loop e n_samples
                                      (s\<lparr>layers := layers s @ [next_layer], x_stats := st\<rparr>) x'
                                      (built @ [next_layer])))
                     else Inr (s, built @ [next_layer])))
      else Inr (s, built))"
  by pat_completeness auto
termination
  by (relation "measure (\<lambda>(e, n, s, x, b). nat (max_layers s - int (length (layers s))))") auto

declare fit_loop.simps [simp del]

text \<open>\<^verbatim>\<open>Sieve.fit(x)\<close>: \<^verbatim>\<open>n_samples, self.n_variables = x.shape\<close>, then the loop.
  \<open>Sieve_fit_run\<close> is the call with its effect, the list of the constructed layers;
  \<open>Sieve_fit\<close> is the returned object.\<close>

definition Sieve_fit_run :: "ext \<Rightarrow> sieve \<Rightarrow> matrix \<Rightarrow> error + (sieve \<times> layer list)" where
  "Sieve_fit_run e s x = fit_loop e (n_rows x) (s\<lparr>n_variables := Some (n_cols x)\<rparr>) x []"

definition Sieve_fit :: "ext \<Rightarrow> sieve \<Rightarrow> matrix \<Rightarrow> error + sieve" where
  "Sieve_fit e s x =
     (case Sieve_fit_run e s x of Inl err \<Rightarrow> Inl err | Inr (s', built) \<Rightarrow> Inr s')"

subsection \<open>Sieve.predict_variable\<close>







section \<open>Specification-level notions\<close>

text \<open>The definitions of this section are not translated from the code: they state the
  conditions and the expected results that the theorems compare the code with.\<close>

subsection \<open>Layers and data that fit together\<close>

text \<open>A layer fits an input \<open>x\<close>: it has one Remainder per column of \<open>x\<close>, at least one
  column, and on \<open>x\<close> its collaborators return one label and one residual code per row.\<close>

definition layer_fits :: "layer \<Rightarrow> matrix \<Rightarrow> bool" where
  "layer_fits ly x =
     (length (remainders ly) = n_cols x \<and> 0 < n_cols x \<and>
      length (cx_transform (corex ly) x) = n_rows x \<and>
      list_all (\<lambda>i. length (rm_transform (remainders ly ! i) (col x i)
                          (cx_transform (corex ly) x)) = n_rows x) [0..<n_cols x])"

text \<open>A layer fits a layer output \<open>xr\<close> (residual codes and a trailing label column): one
  Remainder per residual column, at least one, and one predicted value per row.\<close>

definition output_fits :: "layer \<Rightarrow> matrix \<Rightarrow> bool" where
  "output_fits ly xr =
     (n_cols xr = Suc (length (remainders ly)) \<and> 0 < length (remainders ly) \<and>
      list_all (\<lambda>i. length (rm_predict (remainders ly ! i) (col xr (n_cols xr - 1))
                          (col xr i)) = n_rows xr) [0..<n_cols xr - 1])"

text \<open>The residual-code matrix of \<open>x\<close> with the label vector appended as last column:
  row \<open>j\<close> holds the residual code of each column at row \<open>j\<close>, then the label of row \<open>j\<close>.\<close>

definition layer_output :: "layer \<Rightarrow> matrix \<Rightarrow> matrix" where
  "layer_output ly x =
     Matrix (Suc (n_cols x))
       (map (\<lambda>j. map (\<lambda>i. rm_transform (remainders ly ! i) (col x i)
                             (cx_transform (corex ly) x) ! j) [0..<n_cols x]
                  @ [cx_transform (corex ly) x ! j]) [0..<n_rows x])"

text \<open>The matrix of the values predicted from a layer output \<open>xr\<close>: row \<open>j\<close> holds, for
  each residual column, the value predicted at row \<open>j\<close> from the label column and that
  column.\<close>

definition layer_inverse :: "layer \<Rightarrow> matrix \<Rightarrow> matrix" where
  "layer_inverse ly xr =
     Matrix (n_cols xr - 1)
       (map (\<lambda>j. map (\<lambda>i. rm_predict (remainders ly ! i) (col xr (n_cols xr - 1))
                             (col xr i) ! j) [0..<n_cols xr - 1]) [0..<n_rows xr])"

text \<open>The layers of a sieve fit an input: the first layer fits \<open>x\<close>, the second fits the
  first one's output, and so on.\<close>

fun chain_fits :: "layer list \<Rightarrow> matrix \<Rightarrow> bool" where
  "chain_fits [] x = True"
| "chain_fits (ly # lys) x =
     (layer_fits ly x \<and>
      (case SieveLayer_transform ly x of Inl err \<Rightarrow> False | Inr xo \<Rightarrow> chain_fits lys xo))"

text \<open>Lossless Remainders on the observed data: for each column,
  \<open>predict (labels, transform (x_col, labels)) = x_col\<close>.\<close>

definition layer_lossless :: "layer \<Rightarrow> matrix \<Rightarrow> bool" where
  "layer_lossless ly x =
     list_all (\<lambda>i. rm_predict (remainders ly ! i) (cx_transform (corex ly) x)
                     (rm_transform (remainders ly ! i) (col x i) (cx_transform (corex ly) x))
                   = col x i) [0..<n_cols x]"

fun chain_lossless :: "layer list \<Rightarrow> matrix \<Rightarrow> bool" where
  "chain_lossless [] x = True"
| "chain_lossless (ly # lys) x =
     (layer_lossless ly x \<and>
      (case SieveLayer_transform ly x of Inl err \<Rightarrow> True | Inr xo \<Rightarrow> chain_lossless lys xo))"

subsection \<open>The layers composed\<close>

text \<open>Each layer applied to the whole output of the layer before it.\<close>

fun transform_chain :: "layer list \<Rightarrow> matrix \<Rightarrow> error + matrix" where
  "transform_chain [] x = Inr x"
| "transform_chain (ly # lys) x =
     (case SieveLayer_transform ly x of Inl err \<Rightarrow> Inl err | Inr xo \<Rightarrow> transform_chain lys xo)"

text \<open>The outputs of all layers, shallowest first.\<close>

fun transform_outputs :: "layer list \<Rightarrow> matrix \<Rightarrow> error + matrix list" where
  "transform_outputs [] x = Inr []"
| "transform_outputs (ly # lys) x =
     (case SieveLayer_transform ly x of
        Inl err \<Rightarrow> Inl err
      | Inr xo \<Rightarrow>
          (case transform_outputs lys xo of Inl err \<Rightarrow> Inl err | Inr os \<Rightarrow> Inr (xo # os)))"

text \<open>The matrix whose column \<open>k\<close> is the last column of the \<open>k\<close>-th output.\<close>

definition label_block :: "nat \<Rightarrow> matrix list \<Rightarrow> matrix" where
  "label_block n os = Matrix (length os) (map (\<lambda>j. map (\<lambda>xo. last (rows xo ! j)) os) [0..<n])"

text \<open>The layers inverted one after the other, in the order of the list.\<close>

fun invert_chain :: "layer list \<Rightarrow> ndarray \<Rightarrow> error + ndarray" where
  "invert_chain [] a = Inr a"
| "invert_chain (ly # lys) a =
     (case SieveLayer_invert ly a of Inl err \<Rightarrow> Inl err | Inr a' \<Rightarrow> invert_chain lys a')"

subsection \<open>The candidates of the growth loop\<close>

text \<open>The layers that the first \<open>k\<close> iterations of the loop of \<^verbatim>\<open>fit\<close> construct when none
  is rejected: each is built from the output of the one before it. The list ends where a
  construction or a transformation fails.\<close>

fun candidates :: "ext \<Rightarrow> int option \<Rightarrow> nat \<Rightarrow> matrix \<Rightarrow> layer list" where
  "candidates e kw 0 x = []"
| "candidates e kw (Suc k) x =
     (case SieveLayer_init e kw x of
        Inl err \<Rightarrow> []
      | Inr c \<Rightarrow>
          c # (case SieveLayer_transform c x of
                 Inl err \<Rightarrow> []
               | Inr x' \<Rightarrow> candidates e kw k x'))"

subsection \<open>The scores of a prediction\<close>





section \<open>Example instances\<close>

text \<open>A lossless Remainder (the residual code is the value itself).\<close>

definition id_rem :: remainder where
  "id_rem = \<lparr>rm_transform = (\<lambda>xs ys. xs), rm_predict = (\<lambda>ys zs. zs), rm_mi = 1 / 4, rm_h = 1\<rparr>"

text \<open>A Corex whose label is the width of its input and whose \<open>tc\<close> is 2 on inputs of
  less than three columns and 0 on wider ones.\<close>

definition ex_corex :: "matrix \<Rightarrow> corex" where
  "ex_corex x =
     \<lparr>cx_labels = replicate (n_rows x) (int (n_cols x)),
      cx_transform = (\<lambda>y. replicate (n_rows y) (int (n_cols y))),
      cx_tc = (if n_cols x < 3 then 2 else 0)\<rparr>"

text \<open>The float operations of the examples are the exact ones: every sum, difference and
  quotient that the examples compute (on the values 0, 1/4, 1/2, 3/4, 1, 5/4, 2) is a float,
  so that Python's operations return it unrounded.\<close>

definition ex_ext :: ext where
  "ex_ext = \<lparr>corex_fit = ex_corex, remainder_new = (\<lambda>xs ys k. id_rem),
              fl_add = (+), fl_sub = (-), fl_div = (/)\<rparr>"

definition ex_x :: matrix where
  "ex_x = Matrix 1 [[5], [6]]"

definition ex_layer0 :: layer where
  "ex_layer0 = \<lparr>corex = ex_corex ex_x, labels = [1, 1], remainders = [id_rem]\<rparr>"

definition ex_layer1 :: layer where
  "ex_layer1 = \<lparr>corex = ex_corex (Matrix 2 [[5, 1], [6, 1]]), labels = [2, 2],
                 remainders = [id_rem, id_rem]\<rparr>"

text \<open>The third candidate of \<^verbatim>\<open>fit\<close> on \<open>ex_x\<close>: its \<open>tc\<close> is 0.\<close>

definition ex_layer2 :: layer where
  "ex_layer2 = \<lparr>corex = ex_corex (Matrix 3 [[5, 1, 2], [6, 1, 2]]), labels = [3, 3],
                 remainders = [id_rem, id_rem, id_rem]\<rparr>"

text \<open>The sieve that \<^verbatim>\<open>fit\<close> builds from \<open>ex_x\<close> with \<open>ex_ext\<close>.\<close>

definition ex_sieve :: sieve where
  "ex_sieve = \<lparr>max_layers = 5, kwargs = None, layers = [ex_layer0, ex_layer1],
               x_stats = [[0, 0, 0, 0, 0, 1, 1]], n_variables = Some 1\<rparr>"

text \<open>An input of three columns: \<open>ex_corex\<close> has \<open>tc = 0\<close> on it, so that the first
  candidate of \<^verbatim>\<open>fit\<close> is rejected.\<close>

definition rej_x :: matrix where
  "rej_x = Matrix 3 [[1, 2, 3], [4, 5, 6]]"





section \<open>A single layer\<close>

lemma py_index_nat: "i < length xs \<Longrightarrow> py_index xs (int i) = Inr (xs ! i)"
  by (simp add: py_index_def)

lemma transform_cols_ok:
  "\<forall>i \<in> set is. i < length rs \<Longrightarrow>
   transform_cols rs x ls is = Inr (map (\<lambda>i. rm_transform (rs ! i) (col x i) ls) is)"
  by (induction "is") (simp_all add: py_index_nat)

lemma predict_cols_ok:
  "\<forall>i \<in> set is. i < length rs \<Longrightarrow>
   predict_cols rs xr ys is = Inr (map (\<lambda>i. rm_predict (rs ! i) ys (col xr i)) is)"
  by (induction "is") (simp_all add: py_index_nat)

lemma np_array_T_rect:
  assumes "cs \<noteq> []" and "\<forall>c \<in> set cs. length c = n"
  shows "np_array_T cs = Arr2 (Matrix (length cs) (map (\<lambda>j. map (\<lambda>c. c ! j) cs) [0..<n]))"
  using assms by (cases cs) (auto simp: list_all_iff)

lemma map2_append_single:
  assumes "length ls = n"
  shows "map2 (@) (map f [0..<n]) (map (\<lambda>l. [l]) ls) = map (\<lambda>j. f j @ [ls ! j]) [0..<n]"
  using assms by (intro nth_equalityI) simp_all

lemma SieveLayer_transform_fits:
  assumes "layer_fits ly x"
  shows "SieveLayer_transform ly x = Inr (layer_output ly x)"
proof -
  let ?ls = "cx_transform (corex ly) x"
  let ?cs = "map (\<lambda>i. rm_transform (remainders ly ! i) (col x i) ?ls) [0..<n_cols x]"
  from assms have len: "length (remainders ly) = n_cols x" and pos: "0 < n_cols x"
    and lls: "length ?ls = n_rows x"
    and lcs: "\<forall>c \<in> set ?cs. length c = n_rows x"
    by (auto simp: layer_fits_def list_all_iff)
  have tc: "transform_cols (remainders ly) x ?ls [0..<n_cols x] = Inr ?cs"
    using len by (intro transform_cols_ok) simp
  have ne: "?cs \<noteq> []" using pos by simp
  have arr: "np_array_T ?cs = Arr2 (Matrix (length ?cs) (map (\<lambda>j. map (\<lambda>c. c ! j) ?cs) [0..<n_rows x]))"
    by (rule np_array_T_rect [OF ne lcs])
  show ?thesis
    using lls map2_append_single [OF lls, of "\<lambda>j. map (\<lambda>c. c ! j) ?cs"]
    by (simp add: SieveLayer_transform_def layer_output_def Let_def tc arr hstack_labels_def np_hstack_def newaxis_col_def
        n_rows_def comp_def)
qed

lemma layer_output_shape:
  "n_cols (layer_output ly x) = Suc (n_cols x)" "n_rows (layer_output ly x) = n_rows x"
  "mat_wf (layer_output ly x)"
  by (simp_all add: layer_output_def n_rows_def mat_wf_def list_all_iff)

lemma col_layer_output_code:
  assumes "layer_fits ly x" and "i < n_cols x"
  shows "col (layer_output ly x) i =
           rm_transform (remainders ly ! i) (col x i) (cx_transform (corex ly) x)"
proof -
  let ?c = "rm_transform (remainders ly ! i) (col x i) (cx_transform (corex ly) x)"
  from assms have len: "length ?c = n_rows x"
    by (simp add: layer_fits_def list_all_iff)
  have "col (layer_output ly x) i = map (\<lambda>j. ?c ! j) [0..<n_rows x]"
    using assms(2) by (simp add: col_def layer_output_def nth_append)
  also have "\<dots> = ?c" using len by (intro nth_equalityI) simp_all
  finally show ?thesis .
qed

lemma col_layer_output_label:
  assumes "layer_fits ly x"
  shows "col (layer_output ly x) (n_cols x) = cx_transform (corex ly) x"
proof -
  from assms have len: "length (cx_transform (corex ly) x) = n_rows x"
    by (simp add: layer_fits_def)
  have "col (layer_output ly x) (n_cols x) = map (\<lambda>j. cx_transform (corex ly) x ! j) [0..<n_rows x]"
    by (simp add: col_def layer_output_def nth_append)
  also have "\<dots> = cx_transform (corex ly) x" using len by (intro nth_equalityI) simp_all
  finally show ?thesis .
qed

lemma SieveLayer_invert_fits:
  assumes "output_fits ly xr"
  shows "SieveLayer_invert ly (Arr2 xr) = Inr (Arr2 (layer_inverse ly xr))"
proof -
  let ?ys = "col xr (n_cols xr - 1)"
  let ?cs = "map (\<lambda>i. rm_predict (remainders ly ! i) ?ys (col xr i)) [0..<n_cols xr - 1]"
  from assms have nc: "n_cols xr = Suc (length (remainders ly))" and pos: "0 < length (remainders ly)"
    and lcs: "\<forall>c \<in> set ?cs. length c = n_rows xr"
    by (auto simp: output_fits_def list_all_iff)
  have pc: "predict_cols (remainders ly) xr ?ys [0..<n_cols xr - 1] = Inr ?cs"
    using nc by (intro predict_cols_ok) simp
  have ne: "?cs \<noteq> []" using nc pos by simp
  have arr: "np_array_T ?cs = Arr2 (Matrix (length ?cs) (map (\<lambda>j. map (\<lambda>c. c ! j) ?cs) [0..<n_rows xr]))"
    by (rule np_array_T_rect [OF ne lcs])
  have "SieveLayer_invert ly (Arr2 xr) =
          (case predict_cols (remainders ly) xr ?ys [0..<n_cols xr - 1] of
             Inl err \<Rightarrow> Inl err | Inr cs \<Rightarrow> Inr (np_array_T cs))"
    using nc by (simp add: Let_def)
  also have "\<dots> = Inr (np_array_T ?cs)" by (simp only: pc sum.case)
  also have "\<dots> = Inr (Arr2 (layer_inverse ly xr))"
    by (simp only: arr) (simp add: layer_inverse_def comp_def)
  finally show ?thesis .
qed

lemma np_array_T_cols:
  assumes "mat_wf x" and "0 < n_cols x"
  shows "np_array_T (map (col x) [0..<n_cols x]) = Arr2 x"
proof -
  let ?cs = "map (col x) [0..<n_cols x]"
  have ne: "?cs \<noteq> []" using assms(2) by simp
  have lcs: "\<forall>c \<in> set ?cs. length c = n_rows x" by (auto simp: col_def n_rows_def)
  have rw: "map (\<lambda>j. map (\<lambda>c. c ! j) ?cs) [0..<n_rows x] = rows x"
  proof (rule nth_equalityI)
    show "length (map (\<lambda>j. map (\<lambda>c. c ! j) ?cs) [0..<n_rows x]) = length (rows x)"
      by (simp add: n_rows_def)
  next
    fix j assume "j < length (map (\<lambda>j. map (\<lambda>c. c ! j) ?cs) [0..<n_rows x])"
    then have j: "j < length (rows x)" by (simp add: n_rows_def)
    then have lr: "length (rows x ! j) = n_cols x"
      using assms(1) by (simp add: mat_wf_def list_all_iff)
    have "map (\<lambda>c. c ! j) ?cs = map (\<lambda>i. rows x ! j ! i) [0..<n_cols x]"
      using j by (simp add: col_def comp_def)
    also have "\<dots> = rows x ! j" using lr by (intro nth_equalityI) simp_all
    finally show "map (\<lambda>j. map (\<lambda>c. c ! j) ?cs) [0..<n_rows x] ! j = rows x ! j"
      using j by (simp add: n_rows_def)
  qed
  have "np_array_T ?cs = Arr2 (Matrix (length ?cs) (map (\<lambda>j. map (\<lambda>c. c ! j) ?cs) [0..<n_rows x]))"
    by (rule np_array_T_rect [OF ne lcs])
  then show ?thesis unfolding rw by simp
qed

lemma SieveLayer_invert_output:
  assumes "layer_fits ly x" and "layer_lossless ly x" and "mat_wf x"
  shows "SieveLayer_invert ly (Arr2 (layer_output ly x)) = Inr (Arr2 x)"
proof -
  let ?xo = "layer_output ly x"
  let ?ls = "cx_transform (corex ly) x"
  from assms(1) have len: "length (remainders ly) = n_cols x" and pos: "0 < n_cols x"
    by (simp_all add: layer_fits_def)
  have ys: "col ?xo (n_cols ?xo - 1) = ?ls"
    using col_layer_output_label [OF assms(1)] by (simp add: layer_output_shape)
  have "predict_cols (remainders ly) ?xo ?ls [0..<n_cols x]
          = Inr (map (\<lambda>i. rm_predict (remainders ly ! i) ?ls (col ?xo i)) [0..<n_cols x])"
    using len by (intro predict_cols_ok) simp
  also have "map (\<lambda>i. rm_predict (remainders ly ! i) ?ls (col ?xo i)) [0..<n_cols x]
          = map (col x) [0..<n_cols x]"
    using assms(2) by (auto simp: col_layer_output_code [OF assms(1)] layer_lossless_def list_all_iff)
  finally have pc: "predict_cols (remainders ly) ?xo ?ls [0..<n_cols x] = Inr (map (col x) [0..<n_cols x])" .
  have "SieveLayer_invert ly (Arr2 ?xo) =
          (case predict_cols (remainders ly) ?xo (col ?xo (n_cols ?xo - 1)) [0..<n_cols ?xo - 1] of
             Inl err \<Rightarrow> Inl err | Inr cs \<Rightarrow> Inr (np_array_T cs))"
    by (simp add: Let_def layer_output_shape)
  also have "\<dots> = Inr (np_array_T (map (col x) [0..<n_cols x]))"
    by (simp add: col_layer_output_label [OF assms(1)] layer_output_shape pc)
  finally show ?thesis by (simp add: np_array_T_cols [OF assms(3) pos])
qed


lemma col_layer_inverse:
  assumes "output_fits ly xr" and "i < n_cols xr - 1"
  shows "col (layer_inverse ly xr) i =
           rm_predict (remainders ly ! i) (col xr (n_cols xr - 1)) (col xr i)"
proof -
  let ?c = "rm_predict (remainders ly ! i) (col xr (n_cols xr - 1)) (col xr i)"
  from assms have len: "length ?c = n_rows xr"
    by (auto simp: output_fits_def list_all_iff)
  have "col (layer_inverse ly xr) i = map (\<lambda>j. ?c ! j) [0..<n_rows xr]"
    using assms(2) by (simp add: col_def layer_inverse_def)
  also have "\<dots> = ?c" using len by (intro nth_equalityI) simp_all
  finally show ?thesis .
qed

text \<open>
  C6. For a layer and an input \<open>x\<close> that fit together, \<^verbatim>\<open>transform(x)\<close> returns the
  residual-code matrix with the label vector appended as last column: column \<open>i\<close> is the
  residual code of column \<open>i\<close> of \<open>x\<close>, the last column is the label vector, and the width is
  the input width plus 1. For a layer output \<open>xr\<close> that fits the layer, \<^verbatim>\<open>invert(xr)\<close>
  takes the trailing column as labels and returns one predicted column per remaining
  column; its width is the width of \<open>xr\<close> minus 1.
\<close>

theorem layer_transform_invert_widths:
  assumes "layer_fits ly x" and "output_fits ly xr"
  shows "SieveLayer_transform ly x = Inr (layer_output ly x)
         \<and> n_cols (layer_output ly x) = n_cols x + 1
         \<and> n_rows (layer_output ly x) = n_rows x
         \<and> (\<forall>i < n_cols x. col (layer_output ly x) i =
               rm_transform (remainders ly ! i) (col x i) (cx_transform (corex ly) x))
         \<and> col (layer_output ly x) (n_cols x) = cx_transform (corex ly) x
         \<and> SieveLayer_invert ly (Arr2 xr) = Inr (Arr2 (layer_inverse ly xr))
         \<and> n_cols (layer_inverse ly xr) + 1 = n_cols xr
         \<and> n_rows (layer_inverse ly xr) = n_rows xr
         \<and> (\<forall>i < n_cols xr - 1. col (layer_inverse ly xr) i =
               rm_predict (remainders ly ! i) (col xr (n_cols xr - 1)) (col xr i))"
proof -
  have "n_cols (layer_inverse ly xr) + 1 = n_cols xr"
    using assms(2) by (simp add: layer_inverse_def output_fits_def)
  moreover have "n_rows (layer_inverse ly xr) = n_rows xr"
    by (simp add: layer_inverse_def n_rows_def)
  ultimately show ?thesis
    using SieveLayer_transform_fits [OF assms(1)] SieveLayer_invert_fits [OF assms(2)]
      col_layer_output_code [OF assms(1)] col_layer_output_label [OF assms(1)]
      col_layer_inverse [OF assms(2)]
    by (simp add: layer_output_shape)
qed

theorem layer_transform_invert_widths_witness:
  "SieveLayer_transform ex_layer0 ex_x = Inr (Matrix 2 [[5, 1], [6, 1]])
   \<and> SieveLayer_invert ex_layer0 (Arr2 (Matrix 2 [[5, 1], [6, 1]])) = Inr (Arr2 (Matrix 1 [[5], [6]]))"
proof -
  have h1: "layer_fits ex_layer0 ex_x"
    by (simp add: layer_fits_def ex_layer0_def ex_x_def ex_corex_def id_rem_def n_rows_def col_def)
  have h2: "output_fits ex_layer0 (Matrix 2 [[5, 1], [6, 1]])"
    by (simp add: output_fits_def ex_layer0_def id_rem_def n_rows_def col_def)
  have o: "layer_output ex_layer0 ex_x = Matrix 2 [[5, 1], [6, 1]]"
    by (simp add: layer_output_def ex_layer0_def ex_x_def ex_corex_def id_rem_def n_rows_def
        col_def upt_rec)
  have i: "layer_inverse ex_layer0 (Matrix 2 [[5, 1], [6, 1]]) = Matrix 1 [[5], [6]]"
    by (simp add: layer_inverse_def ex_layer0_def id_rem_def n_rows_def col_def upt_rec)
  from layer_transform_invert_widths [OF h1 h2]
  have "SieveLayer_transform ex_layer0 ex_x = Inr (layer_output ex_layer0 ex_x)"
    and "SieveLayer_invert ex_layer0 (Arr2 (Matrix 2 [[5, 1], [6, 1]]))
           = Inr (Arr2 (layer_inverse ex_layer0 (Matrix 2 [[5, 1], [6, 1]])))"
    by blast+
  then show ?thesis unfolding o i by blast
qed

section \<open>The layers of a sieve\<close>

lemma chain_fits_Cons:
  "chain_fits (ly # lys) x \<longleftrightarrow> layer_fits ly x \<and> chain_fits lys (layer_output ly x)"
  by (auto simp: SieveLayer_transform_fits)

lemma chain_outputs:
  assumes "chain_fits lys x"
  shows "\<exists>outs. transform_outputs lys x = Inr outs \<and> length outs = length lys \<and>
           (\<forall>k < length lys. layer_fits (lys ! k) ((x # outs) ! k)
                \<and> outs ! k = layer_output (lys ! k) ((x # outs) ! k)
                \<and> n_cols (outs ! k) = n_cols x + Suc k
                \<and> n_rows (outs ! k) = n_rows x)"
  using assms
proof (induction lys arbitrary: x)
  case Nil
  then show ?case by simp
next
  case (Cons ly lys)
  let ?xo = "layer_output ly x"
  from Cons.prems have f: "layer_fits ly x" and c: "chain_fits lys ?xo"
    by (simp_all add: chain_fits_Cons del: chain_fits.simps)
  from Cons.IH [OF c] obtain outs where
    o: "transform_outputs lys ?xo = Inr outs" and l: "length outs = length lys"
    and a: "\<forall>k < length lys. layer_fits (lys ! k) ((?xo # outs) ! k)
                \<and> outs ! k = layer_output (lys ! k) ((?xo # outs) ! k)
                \<and> n_cols (outs ! k) = n_cols ?xo + Suc k
                \<and> n_rows (outs ! k) = n_rows ?xo"
    by blast
  have "transform_outputs (ly # lys) x = Inr (?xo # outs)"
    by (simp add: SieveLayer_transform_fits [OF f] o)
  moreover have "length (?xo # outs) = length (ly # lys)" by (simp add: l)
  moreover have "\<forall>k < length (ly # lys). layer_fits ((ly # lys) ! k) ((x # ?xo # outs) ! k)
                \<and> (?xo # outs) ! k = layer_output ((ly # lys) ! k) ((x # ?xo # outs) ! k)
                \<and> n_cols ((?xo # outs) ! k) = n_cols x + Suc k
                \<and> n_rows ((?xo # outs) ! k) = n_rows x"
  proof (intro allI impI)
    fix k assume "k < length (ly # lys)"
    then show "layer_fits ((ly # lys) ! k) ((x # ?xo # outs) ! k)
                \<and> (?xo # outs) ! k = layer_output ((ly # lys) ! k) ((x # ?xo # outs) ! k)
                \<and> n_cols ((?xo # outs) ! k) = n_cols x + Suc k
                \<and> n_rows ((?xo # outs) ! k) = n_rows x"
    proof (cases k)
      case 0
      then show ?thesis using f by (simp add: layer_output_shape)
    next
      case (Suc k')
      with \<open>k < length (ly # lys)\<close> have "k' < length lys" by simp
      with a have 1: "layer_fits (lys ! k') ((?xo # outs) ! k')"
        and 2: "outs ! k' = layer_output (lys ! k') ((?xo # outs) ! k')"
        and 3: "n_cols (outs ! k') = n_cols ?xo + Suc k'"
        and 4: "n_rows (outs ! k') = n_rows ?xo" by blast+
      from 3 have c3: "n_cols (outs ! k') = n_cols x + Suc (Suc k')"
        by (simp add: layer_output_shape)
      from 4 have r4: "n_rows (outs ! k') = n_rows x"
        by (simp add: layer_output_shape)
      from 1 2 c3 r4 show ?thesis unfolding Suc by simp
    qed
  qed
  ultimately show ?case by blast
qed

lemma transform_chain_outputs:
  "transform_outputs lys x = Inr outs \<Longrightarrow> transform_chain lys x = Inr (last (x # outs))"
proof (induction lys arbitrary: x outs)
  case Nil
  then show ?case by simp
next
  case (Cons ly lys)
  then show ?case by (auto split: sum.splits)
qed

lemma last_col_block_label:
  assumes "mat_wf xo" and "n_cols xo = Suc m"
  shows "last_col_block xo = label_block (n_rows xo) [xo]"
proof -
  have "map (drop m) (rows xo) = map (\<lambda>j. [last (rows xo ! j)]) [0..<length (rows xo)]"
  proof (rule nth_equalityI)
    show "length (map (drop m) (rows xo)) = length (map (\<lambda>j. [last (rows xo ! j)]) [0..<length (rows xo)])"
      by simp
  next
    fix j assume "j < length (map (drop m) (rows xo))"
    then have j: "j < length (rows xo)" by simp
    then have lr: "length (rows xo ! j) = Suc m"
      using assms by (simp add: mat_wf_def list_all_iff)
    then obtain ys y where ys: "rows xo ! j = ys @ [y]" "length ys = m"
      by (metis length_Suc_conv_rev)
    then show "map (drop m) (rows xo) ! j = map (\<lambda>j. [last (rows xo ! j)]) [0..<length (rows xo)] ! j"
      using j by simp
  qed
  then show ?thesis
    using assms(2) by (simp add: last_col_block_def label_block_def n_rows_def)
qed

lemma label_block_Cons:
  "np_hstack (label_block n [xo]) (label_block n os) = Inr (label_block n (xo # os))"
  by (simp add: np_hstack_def label_block_def n_rows_def) (rule nth_equalityI, simp_all)

lemma np_hstack_assoc:
  assumes "np_hstack p a = Inr pa" and "np_hstack a b = Inr ab"
  shows "np_hstack pa b = np_hstack p ab"
proof -
  from assms have n: "n_rows p = n_rows a" "n_rows a = n_rows b"
    and pa: "pa = Matrix (n_cols p + n_cols a) (map2 (@) (rows p) (rows a))"
    and ab: "ab = Matrix (n_cols a + n_cols b) (map2 (@) (rows a) (rows b))"
    by (auto simp: np_hstack_def split: if_splits)
  have "map2 (@) (map2 (@) (rows p) (rows a)) (rows b) = map2 (@) (rows p) (map2 (@) (rows a) (rows b))"
    using n by (intro nth_equalityI) (simp_all add: n_rows_def)
  then show ?thesis using n by (simp add: np_hstack_def pa ab n_rows_def)
qed

lemma label_block_shape:
  "n_rows (label_block n os) = n" "n_cols (label_block n os) = length os"
  by (simp_all add: label_block_def n_rows_def)

lemma np_hstack_ok:
  assumes "n_rows p = n_rows q"
  shows "\<exists>l. np_hstack p q = Inr l \<and> n_rows l = n_rows p \<and> n_cols l = n_cols p + n_cols q"
  using assms by (simp add: np_hstack_def n_rows_def)

lemma Sieve_transform_step:
  assumes "py_index (layers s) lay = Inr ly" and "SieveLayer_transform ly x = Inr xo"
    and "(case prev of None \<Rightarrow> Inr (last_col_block xo)
          | Some p \<Rightarrow> np_hstack p (last_col_block xo)) = Inr lbs"
  shows "Sieve_transform s x lay prev =
           (if lay = int (length (layers s)) - 1 then Inr (xo, lbs)
            else Sieve_transform s xo (lay + 1) (Some lbs))"
  by (subst Sieve_transform.simps) (simp only: assms sum.case)

lemma Sieve_invert_step:
  assumes "py_index (layers s) lay = Inr ly"
  shows "Sieve_invert s a (Some lay) =
           (case SieveLayer_invert ly a of
              Inl err \<Rightarrow> Inl err
            | Inr a' \<Rightarrow> if lay = 0 then Inr a' else Sieve_invert s a' (Some (lay - 1)))"
proof (cases "lay = 0")
  case True
  with assms have "py_index (layers s) 0 = Inr ly" by simp
  then show ?thesis
    unfolding True by (subst Sieve_invert.simps) (simp split: sum.splits)
next
  case False
  then show ?thesis
    by (subst Sieve_invert.simps) (simp add: assms split: sum.splits)
qed

lemma Sieve_transform_from:
  assumes "k < length (layers s)" and "chain_fits (drop k (layers s)) x"
    and "case prev of None \<Rightarrow> True | Some p \<Rightarrow> n_rows p = n_rows x"
  shows "\<exists>outs lbs. transform_outputs (drop k (layers s)) x = Inr outs
           \<and> Sieve_transform s x (int k) prev = Inr (last outs, lbs)
           \<and> (case prev of None \<Rightarrow> lbs = label_block (n_rows x) outs
                | Some p \<Rightarrow> np_hstack p (label_block (n_rows x) outs) = Inr lbs)"
  using assms
proof (induction "length (layers s) - Suc k" arbitrary: k x prev)
  case 0
  let ?ly = "layers s ! k"
  let ?xo = "layer_output ?ly x"
  from 0 have last: "Suc k = length (layers s)" by simp
  then have dr: "drop k (layers s) = [?ly]"
    using "0.prems"(1) by (metis Cons_nth_drop_Suc drop_all le_refl)
  from "0.prems"(2) have f: "layer_fits ?ly x" unfolding dr by simp
  have tr: "SieveLayer_transform ?ly x = Inr ?xo" by (rule SieveLayer_transform_fits [OF f])
  have lc: "last_col_block ?xo = label_block (n_rows x) [?xo]"
    using last_col_block_label [of ?xo "n_cols x"] by (simp add: layer_output_shape)
  have ix: "py_index (layers s) (int k) = Inr ?ly" using "0.prems"(1) by (rule py_index_nat)
  have cond: "int k = int (length (layers s)) - 1" using last by simp
  have outs: "transform_outputs (drop k (layers s)) x = Inr [?xo]" unfolding dr by (simp add: tr)
  show ?case
  proof (cases prev)
    case None
    have "Sieve_transform s x (int k) None = Inr (?xo, label_block (n_rows x) [?xo])"
      using Sieve_transform_step [OF ix tr, of None "label_block (n_rows x) [?xo]"] cond
      by (simp add: lc)
    with outs None show ?thesis by simp
  next
    case (Some p)
    with "0.prems"(3) have np: "n_rows p = n_rows x" by simp
    then obtain lbs where h: "np_hstack p (label_block (n_rows x) [?xo]) = Inr lbs"
      using np_hstack_ok [of p "label_block (n_rows x) [?xo]"]
      by (auto simp: label_block_shape)
    have "Sieve_transform s x (int k) (Some p) = Inr (?xo, lbs)"
      using Sieve_transform_step [OF ix tr, of "Some p" lbs] cond
      by (simp add: lc h)
    with outs Some h show ?thesis by simp
  qed
next
  case (Suc n)
  let ?ly = "layers s ! k"
  let ?xo = "layer_output ?ly x"
  from Suc.hyps(2) have more: "Suc k < length (layers s)" and n: "n = length (layers s) - Suc (Suc k)"
    by simp_all
  have dr: "drop k (layers s) = ?ly # drop (Suc k) (layers s)"
    using Suc.prems(1) by (simp add: Cons_nth_drop_Suc)
  from Suc.prems(2) have f: "layer_fits ?ly x" and c: "chain_fits (drop (Suc k) (layers s)) ?xo"
    unfolding dr by (simp_all add: chain_fits_Cons del: chain_fits.simps)
  have tr: "SieveLayer_transform ?ly x = Inr ?xo" by (rule SieveLayer_transform_fits [OF f])
  have lc: "last_col_block ?xo = label_block (n_rows x) [?xo]"
    using last_col_block_label [of ?xo "n_cols x"] by (simp add: layer_output_shape)
  have ix: "py_index (layers s) (int k) = Inr ?ly" using Suc.prems(1) by (rule py_index_nat)
  have cond: "int k \<noteq> int (length (layers s)) - 1" using more by simp
  have step: "int k + 1 = int (Suc k)" by simp
  show ?case
  proof (cases prev)
    case None
    have pr: "case Some (label_block (n_rows x) [?xo]) of None \<Rightarrow> True
              | Some p \<Rightarrow> n_rows p = n_rows ?xo"
      by (simp add: label_block_shape layer_output_shape)
    from Suc.hyps(1) [OF n more c pr] obtain outs lbs where
      o: "transform_outputs (drop (Suc k) (layers s)) ?xo = Inr outs"
      and t: "Sieve_transform s ?xo (int (Suc k)) (Some (label_block (n_rows x) [?xo])) = Inr (last outs, lbs)"
      and h: "np_hstack (label_block (n_rows x) [?xo]) (label_block (n_rows ?xo) outs) = Inr lbs"
      by auto
    from o more have ne: "outs \<noteq> []"
      by (cases "drop (Suc k) (layers s)") (auto split: sum.splits)
    have "Sieve_transform s x (int k) None =
            Sieve_transform s ?xo (int k + 1) (Some (label_block (n_rows x) [?xo]))"
      using Sieve_transform_step [OF ix tr, of None "label_block (n_rows x) [?xo]"] cond
      by (simp add: lc)
    also have "\<dots> = Inr (last outs, lbs)" using t by (simp add: add.commute)
    finally have "Sieve_transform s x (int k) None = Inr (last outs, lbs)" .
    moreover have "transform_outputs (drop k (layers s)) x = Inr (?xo # outs)"
      unfolding dr by (simp add: tr o)
    moreover have "lbs = label_block (n_rows x) (?xo # outs)"
      using h by (simp add: label_block_Cons layer_output_shape)
    ultimately show ?thesis using None ne by simp
  next
    case (Some p)
    with Suc.prems(3) have np: "n_rows p = n_rows x" by simp
    then obtain l0 where h0: "np_hstack p (label_block (n_rows x) [?xo]) = Inr l0"
      and nl0: "n_rows l0 = n_rows x"
      using np_hstack_ok [of p "label_block (n_rows x) [?xo]"]
      by (auto simp: label_block_shape)
    have pr: "case Some l0 of None \<Rightarrow> True | Some p \<Rightarrow> n_rows p = n_rows ?xo"
      by (simp add: nl0 layer_output_shape)
    from Suc.hyps(1) [OF n more c pr] obtain outs lbs where
      o: "transform_outputs (drop (Suc k) (layers s)) ?xo = Inr outs"
      and t: "Sieve_transform s ?xo (int (Suc k)) (Some l0) = Inr (last outs, lbs)"
      and h: "np_hstack l0 (label_block (n_rows ?xo) outs) = Inr lbs"
      by auto
    from o more have ne: "outs \<noteq> []"
      by (cases "drop (Suc k) (layers s)") (auto split: sum.splits)
    have "Sieve_transform s x (int k) (Some p) = Sieve_transform s ?xo (int k + 1) (Some l0)"
      using Sieve_transform_step [OF ix tr, of "Some p" l0] cond
      by (simp add: lc h0)
    also have "\<dots> = Inr (last outs, lbs)" using t by (simp add: add.commute)
    finally have "Sieve_transform s x (int k) (Some p) = Inr (last outs, lbs)" .
    moreover have "transform_outputs (drop k (layers s)) x = Inr (?xo # outs)"
      unfolding dr by (simp add: tr o)
    moreover have "np_hstack p (label_block (n_rows x) (?xo # outs)) = Inr lbs"
      using np_hstack_assoc [OF h0 label_block_Cons, of "outs"] h
      by (simp add: layer_output_shape)
    ultimately show ?thesis using Some ne by simp
  qed
qed

lemma invert_chain_append:
  "invert_chain (as @ bs) a =
     (case invert_chain as a of Inl err \<Rightarrow> Inl err | Inr a' \<Rightarrow> invert_chain bs a')"
  by (induction as arbitrary: a) (simp_all split: sum.splits)

lemma Sieve_invert_from:
  assumes "k < length (layers s)"
  shows "Sieve_invert s a (Some (int k)) = invert_chain (rev (take (Suc k) (layers s))) a"
  using assms
proof (induction k arbitrary: a)
  case 0
  then have tk: "take (Suc 0) (layers s) = [layers s ! 0]"
    by (cases "layers s") simp_all
  have ix: "py_index (layers s) 0 = Inr (layers s ! 0)"
    using 0 py_index_nat [of 0 "layers s"] by simp
  show ?case
    using Sieve_invert_step [OF ix, of a] by (simp add: tk split: sum.splits)
next
  case (Suc k)
  then have k: "k < length (layers s)" by simp
  have tk: "take (Suc (Suc k)) (layers s) = take (Suc k) (layers s) @ [layers s ! Suc k]"
    using Suc.prems by (rule take_Suc_conv_app_nth)
  have ix: "py_index (layers s) (int (Suc k)) = Inr (layers s ! Suc k)"
    using Suc.prems by (rule py_index_nat)
  have nz: "int (Suc k) \<noteq> 0" "int (Suc k) - 1 = int k" by simp_all
  have "Sieve_invert s a (Some (int (Suc k))) =
          (case SieveLayer_invert (layers s ! Suc k) a of
             Inl err \<Rightarrow> Inl err | Inr a' \<Rightarrow> Sieve_invert s a' (Some (int k)))"
    using Sieve_invert_step [OF ix, of a] by (simp only: nz if_False)
  then show ?case
    unfolding tk by (simp add: Suc.IH [OF k] split: sum.splits)
qed

lemma Sieve_invert_default:
  assumes "layers s \<noteq> []"
  shows "Sieve_invert s a None = invert_chain (rev (layers s)) a"
proof -
  have "Sieve_invert s a None = Sieve_invert s a (Some (int (length (layers s) - 1)))"
    using assms
    by (subst Sieve_invert.simps, subst (2) Sieve_invert.simps) (simp add: of_nat_diff Suc_leI)
  also have "\<dots> = invert_chain (rev (take (Suc (length (layers s) - 1)) (layers s))) a"
    using assms by (intro Sieve_invert_from) simp
  finally show ?thesis using assms by simp
qed

lemma chain_roundtrip:
  assumes "chain_fits lys x" and "chain_lossless lys x" and "mat_wf x"
  shows "\<exists>r. transform_chain lys x = Inr r \<and> invert_chain (rev lys) (Arr2 r) = Inr (Arr2 x)"
  using assms
proof (induction lys arbitrary: x)
  case Nil
  then show ?case by simp
next
  case (Cons ly lys)
  let ?xo = "layer_output ly x"
  from Cons.prems(1) have f: "layer_fits ly x" and c: "chain_fits lys ?xo"
    by (simp_all add: chain_fits_Cons del: chain_fits.simps)
  have tr: "SieveLayer_transform ly x = Inr ?xo" by (rule SieveLayer_transform_fits [OF f])
  from Cons.prems(2) have ll: "layer_lossless ly x" and cl: "chain_lossless lys ?xo"
    by (simp_all add: tr)
  from Cons.IH [OF c cl layer_output_shape(3)] obtain r where
    r: "transform_chain lys ?xo = Inr r" and i: "invert_chain (rev lys) (Arr2 r) = Inr (Arr2 ?xo)"
    by blast
  have "transform_chain (ly # lys) x = Inr r" by (simp add: tr r)
  moreover have "invert_chain (rev (ly # lys)) (Arr2 r) = Inr (Arr2 x)"
    by (simp add: invert_chain_append i SieveLayer_invert_output [OF f ll Cons.prems(3)]
        del: SieveLayer_invert.simps)
  ultimately show ?case by blast
qed

lemma col_label_block:
  assumes "k < length outs" and "mat_wf (outs ! k)" and "n_rows (outs ! k) = n"
    and "0 < n_cols (outs ! k)"
  shows "col (label_block n outs) k = col (outs ! k) (n_cols (outs ! k) - 1)"
proof -
  have "map (\<lambda>j. last (rows (outs ! k) ! j)) [0..<n]
          = map (\<lambda>r. r ! (n_cols (outs ! k) - 1)) (rows (outs ! k))"
  proof (rule nth_equalityI)
    show "length (map (\<lambda>j. last (rows (outs ! k) ! j)) [0..<n])
            = length (map (\<lambda>r. r ! (n_cols (outs ! k) - 1)) (rows (outs ! k)))"
      using assms(3) by (simp add: n_rows_def)
  next
    fix j assume "j < length (map (\<lambda>j. last (rows (outs ! k) ! j)) [0..<n])"
    then have j: "j < n" by simp
    then have jr: "j < length (rows (outs ! k))" using assms(3) by (simp add: n_rows_def)
    then have lr: "length (rows (outs ! k) ! j) = n_cols (outs ! k)"
      using assms(2) by (simp add: mat_wf_def list_all_iff)
    then have "rows (outs ! k) ! j \<noteq> []" using assms(4) by auto
    then have "last (rows (outs ! k) ! j) = rows (outs ! k) ! j ! (n_cols (outs ! k) - 1)"
      using lr by (simp add: last_conv_nth)
    then show "map (\<lambda>j. last (rows (outs ! k) ! j)) [0..<n] ! j
                 = map (\<lambda>r. r ! (n_cols (outs ! k) - 1)) (rows (outs ! k)) ! j"
      using j jr by simp
  qed
  moreover have "col (label_block n outs) k = map (\<lambda>j. last (rows (outs ! k) ! j)) [0..<n]"
    using assms(1) by (simp add: col_def label_block_def)
  ultimately show ?thesis by (simp add: col_def)
qed

lemma Sieve_transform_all:
  assumes "layers s \<noteq> []" and "chain_fits (layers s) x"
  shows "\<exists>outs. transform_outputs (layers s) x = Inr outs \<and> length outs = length (layers s)
           \<and> (\<forall>k < length (layers s). layer_fits (layers s ! k) ((x # outs) ! k)
                \<and> outs ! k = layer_output (layers s ! k) ((x # outs) ! k)
                \<and> n_cols (outs ! k) = n_cols x + Suc k
                \<and> n_rows (outs ! k) = n_rows x)
           \<and> Sieve_transform s x 0 None = Inr (last outs, label_block (n_rows x) outs)"
proof -
  from chain_outputs [OF assms(2)] obtain outs where
    o: "transform_outputs (layers s) x = Inr outs" and l: "length outs = length (layers s)"
    and a: "\<forall>k < length (layers s). layer_fits (layers s ! k) ((x # outs) ! k)
                \<and> outs ! k = layer_output (layers s ! k) ((x # outs) ! k)
                \<and> n_cols (outs ! k) = n_cols x + Suc k
                \<and> n_rows (outs ! k) = n_rows x"
    by blast
  from assms(1) have pos: "0 < length (layers s)" by simp
  from Sieve_transform_from [OF pos, of x None] assms(2) o
  have "Sieve_transform s x 0 None = Inr (last outs, label_block (n_rows x) outs)"
    by auto
  with o l a show ?thesis by blast
qed

subsection \<open>Evaluation of the example instances\<close>

lemmas ex_defs = ex_sieve_def ex_layer0_def ex_layer1_def ex_x_def ex_corex_def id_rem_def
lemmas eval_defs = SieveLayer_transform_def hstack_labels_def np_hstack_def newaxis_col_def
  last_col_block_def py_index_def n_rows_def col_def Let_def

lemma ex_chain_fits: "chain_fits (layers ex_sieve) ex_x"
  by (simp add: ex_defs eval_defs layer_fits_def)

lemma ex_transform_outputs:
  "transform_outputs (layers ex_sieve) ex_x
     = Inr [Matrix 2 [[5, 1], [6, 1]], Matrix 3 [[5, 1, 2], [6, 1, 2]]]"
  by (simp add: ex_defs eval_defs)

lemma ex_fit: "Sieve_fit ex_ext (Sieve_init 5 None) ex_x = Inr ex_sieve"
  by (simp add: Sieve_fit_def Sieve_fit_run_def Sieve_init_def fit_loop.simps ex_ext_def
      SieveLayer_init_def mask_nonneg_def accepts_def float_lb_def np_bincount_def upt_rec
      ex_defs eval_defs)

subsection \<open>What transform returns\<close>

text \<open>
  C1 (as amended). For a sieve with at least one layer whose layers fit the input \<open>x\<close>,
  \<^verbatim>\<open>transform(x)\<close> applies each layer to the whole output of the layer before it (the
  residual codes together with the label column, not the residual part alone), and returns
  the output of the deepest layer, label column included, paired with the matrix whose
  column \<open>k\<close> is the label column of the output of layer \<open>k\<close>.
\<close>

theorem Sieve_transform_outputs:
  assumes "layers s \<noteq> []" and "chain_fits (layers s) x"
  shows "\<exists>outs. transform_outputs (layers s) x = Inr outs \<and> length outs = length (layers s)
           \<and> (\<forall>k < length (layers s). outs ! k = layer_output (layers s ! k) ((x # outs) ! k))
           \<and> Sieve_transform s x 0 None = Inr (last outs, label_block (n_rows x) outs)"
  using Sieve_transform_all [OF assms] by blast

theorem Sieve_transform_outputs_witness:
  "transform_outputs (layers ex_sieve) ex_x
     = Inr [Matrix 2 [[5, 1], [6, 1]], Matrix 3 [[5, 1, 2], [6, 1, 2]]]
   \<and> Sieve_transform ex_sieve ex_x 0 None
     = Inr (Matrix 3 [[5, 1, 2], [6, 1, 2]], Matrix 2 [[1, 2], [1, 2]])"
proof -
  have ne: "layers ex_sieve \<noteq> []" by (simp add: ex_sieve_def)
  from Sieve_transform_outputs [OF ne ex_chain_fits] obtain outs where
    o: "transform_outputs (layers ex_sieve) ex_x = Inr outs"
    and t: "Sieve_transform ex_sieve ex_x 0 None = Inr (last outs, label_block (n_rows ex_x) outs)"
    by blast
  from o have outs: "outs = [Matrix 2 [[5, 1], [6, 1]], Matrix 3 [[5, 1, 2], [6, 1, 2]]]"
    by (simp add: ex_transform_outputs)
  have "label_block (n_rows ex_x) outs = Matrix 2 [[1, 2], [1, 2]]"
    unfolding outs by (simp add: label_block_def ex_x_def n_rows_def upt_rec)
  with t outs ex_transform_outputs show ?thesis by simp
qed

text \<open>
  C1 as stated fails. The first component is not the residual part alone: for a one-column input and two
  layers it has three columns, the last one the label of the deepest layer, and the label 2
  of the second layer is the width of the input that this layer was given.
\<close>

theorem Sieve_transform_counterexample:
  "Sieve_fit ex_ext (Sieve_init 5 None) ex_x = Inr ex_sieve
   \<and> n_cols ex_x = 1
   \<and> Sieve_transform ex_sieve ex_x 0 None
     = Inr (Matrix 3 [[5, 1, 2], [6, 1, 2]], Matrix 2 [[1, 2], [1, 2]])"
proof -
  have "Sieve_transform ex_sieve ex_x 0 None
          = Inr (Matrix 3 [[5, 1, 2], [6, 1, 2]], Matrix 2 [[1, 2], [1, 2]])"
    by (simp add: Sieve_transform.simps ex_defs eval_defs)
  with ex_fit show ?thesis by (simp add: ex_x_def)
qed


text \<open>
  C10. For a sieve with \<open>L \<ge> 1\<close> layers that fit an input \<open>x\<close> of \<open>V\<close> columns,
  \<^verbatim>\<open>transform(x)\<close> returns a pair \<open>(r, labels)\<close>: \<open>r\<close> has \<open>V + L\<close> columns,
  \<open>labels\<close> has \<open>L\<close> columns, column \<open>k\<close> of \<open>labels\<close> is the label vector of layer
  \<open>k\<close> (shallowest first), and the last column of \<open>r\<close> is the last column of
  \<open>labels\<close>.
\<close>

theorem Sieve_transform_widths:
  assumes "layers s \<noteq> []" and "chain_fits (layers s) x"
  shows "\<exists>outs r lbs. transform_outputs (layers s) x = Inr outs
           \<and> Sieve_transform s x 0 None = Inr (r, lbs)
           \<and> n_cols r = n_cols x + length (layers s) \<and> n_rows r = n_rows x
           \<and> n_cols lbs = length (layers s) \<and> n_rows lbs = n_rows x
           \<and> (\<forall>k < length (layers s).
                 col lbs k = cx_transform (corex (layers s ! k)) ((x # outs) ! k))
           \<and> col r (n_cols r - 1) = col lbs (n_cols lbs - 1)"
proof -
  let ?L = "length (layers s)"
  from Sieve_transform_all [OF assms] obtain outs where
    o: "transform_outputs (layers s) x = Inr outs" and l: "length outs = ?L"
    and a: "\<forall>k < ?L. layer_fits (layers s ! k) ((x # outs) ! k)
                \<and> outs ! k = layer_output (layers s ! k) ((x # outs) ! k)
                \<and> n_cols (outs ! k) = n_cols x + Suc k
                \<and> n_rows (outs ! k) = n_rows x"
    and t: "Sieve_transform s x 0 None = Inr (last outs, label_block (n_rows x) outs)"
    by blast
  let ?r = "last outs" and ?lbs = "label_block (n_rows x) outs"
  from assms(1) l have ne: "outs \<noteq> []" and pos: "0 < ?L" by auto
  have labs: "col ?lbs k = cx_transform (corex (layers s ! k)) ((x # outs) ! k)
              \<and> col ?lbs k = col (outs ! k) (n_cols (outs ! k) - 1)" if k: "k < ?L" for k
  proof -
    let ?in = "(x # outs) ! k"
    from a k have f: "layer_fits (layers s ! k) ?in"
      and e: "outs ! k = layer_output (layers s ! k) ?in"
      and c: "n_cols (outs ! k) = n_cols x + Suc k" and r: "n_rows (outs ! k) = n_rows x"
      by blast+
    have wf: "mat_wf (outs ! k)" unfolding e by (rule layer_output_shape)
    have "col ?lbs k = col (outs ! k) (n_cols (outs ! k) - 1)"
      using k l c by (intro col_label_block [OF _ wf r]) simp_all
    moreover have "n_cols (outs ! k) - 1 = n_cols ?in"
      by (subst e) (simp add: layer_output_shape)
    moreover have "col (outs ! k) (n_cols ?in) = cx_transform (corex (layers s ! k)) ?in"
      by (subst e) (rule col_layer_output_label [OF f])
    ultimately show ?thesis by simp
  qed
  have lst: "last outs = outs ! (?L - 1)" using ne l by (simp add: last_conv_nth)
  from pos have "?L - 1 < ?L" by simp
  with a have "n_cols (outs ! (?L - 1)) = n_cols x + Suc (?L - 1)"
    and "n_rows (outs ! (?L - 1)) = n_rows x" by blast+
  then have nr: "n_cols ?r = n_cols x + ?L" "n_rows ?r = n_rows x"
    using pos lst by simp_all
  have nl: "n_cols ?lbs = ?L" "n_rows ?lbs = n_rows x"
    by (simp_all add: label_block_shape l)
  have "col ?lbs (?L - 1) = col (outs ! (?L - 1)) (n_cols (outs ! (?L - 1)) - 1)"
    using labs [OF \<open>?L - 1 < ?L\<close>] by blast
  then have "col ?r (n_cols ?r - 1) = col ?lbs (n_cols ?lbs - 1)"
    by (simp add: lst nl(1))
  with o t nr nl labs show ?thesis by blast
qed

theorem Sieve_transform_widths_witness:
  "Sieve_transform ex_sieve ex_x 0 None
     = Inr (Matrix 3 [[5, 1, 2], [6, 1, 2]], Matrix 2 [[1, 2], [1, 2]])
   \<and> n_cols (Matrix 3 [[5, 1, 2], [6, 1, 2]]) = n_cols ex_x + length (layers ex_sieve)
   \<and> n_cols (Matrix 2 [[1, 2], [1, 2]]) = length (layers ex_sieve)
   \<and> col (Matrix 3 [[5, 1, 2], [6, 1, 2]]) 2 = col (Matrix 2 [[1, 2], [1, 2]]) 1"
proof -
  have ne: "layers ex_sieve \<noteq> []" by (simp add: ex_sieve_def)
  from Sieve_transform_widths [OF ne ex_chain_fits] obtain r lbs where
    t: "Sieve_transform ex_sieve ex_x 0 None = Inr (r, lbs)"
    and w: "n_cols r = n_cols ex_x + length (layers ex_sieve)" "n_cols lbs = length (layers ex_sieve)"
    and c: "col r (n_cols r - 1) = col lbs (n_cols lbs - 1)"
    by blast
  have v: "Sieve_transform ex_sieve ex_x 0 None
            = Inr (Matrix 3 [[5, 1, 2], [6, 1, 2]], Matrix 2 [[1, 2], [1, 2]])"
    by (simp add: Sieve_transform.simps ex_defs eval_defs)
  with t have r: "r = Matrix 3 [[5, 1, 2], [6, 1, 2]]" and lbs: "lbs = Matrix 2 [[1, 2], [1, 2]]"
    by simp_all
  from w c show ?thesis unfolding r lbs using v by simp
qed

subsection \<open>Round trip\<close>

text \<open>
  C3. For a sieve with at least one layer whose layers fit a well-formed input \<open>x\<close>, if
  every Remainder is lossless on the observed data (for each column,
  \<open>predict (labels, transform (x_col, labels)) = x_col\<close>), then \<^verbatim>\<open>invert\<close> applied to
  the first component of \<^verbatim>\<open>transform(x)\<close> returns \<open>x\<close>.
\<close>

theorem Sieve_roundtrip:
  assumes "layers s \<noteq> []" and "chain_fits (layers s) x" and "chain_lossless (layers s) x"
    and "mat_wf x"
  shows "\<exists>r lbs. Sieve_transform s x 0 None = Inr (r, lbs)
           \<and> Sieve_invert s (Arr2 r) None = Inr (Arr2 x)"
proof -
  from Sieve_transform_all [OF assms(1,2)] obtain outs where
    o: "transform_outputs (layers s) x = Inr outs" and l: "length outs = length (layers s)"
    and t: "Sieve_transform s x 0 None = Inr (last outs, label_block (n_rows x) outs)"
    by blast
  from assms(1) l have ne: "outs \<noteq> []" by auto
  from transform_chain_outputs [OF o] ne have tc: "transform_chain (layers s) x = Inr (last outs)"
    by simp
  from chain_roundtrip [OF assms(2,3,4)] tc
  have "invert_chain (rev (layers s)) (Arr2 (last outs)) = Inr (Arr2 x)" by auto
  then have "Sieve_invert s (Arr2 (last outs)) None = Inr (Arr2 x)"
    by (simp add: Sieve_invert_default [OF assms(1)])
  with t show ?thesis by blast
qed

theorem Sieve_roundtrip_witness:
  "Sieve_transform ex_sieve ex_x 0 None
     = Inr (Matrix 3 [[5, 1, 2], [6, 1, 2]], Matrix 2 [[1, 2], [1, 2]])
   \<and> Sieve_invert ex_sieve (Arr2 (Matrix 3 [[5, 1, 2], [6, 1, 2]])) None = Inr (Arr2 ex_x)"
proof -
  have ne: "layers ex_sieve \<noteq> []" by (simp add: ex_sieve_def)
  have ll: "chain_lossless (layers ex_sieve) ex_x"
    by (simp add: ex_defs eval_defs layer_lossless_def)
  have wf: "mat_wf ex_x" by (simp add: ex_x_def mat_wf_def)
  from Sieve_roundtrip [OF ne ex_chain_fits ll wf] obtain r lbs where
    t: "Sieve_transform ex_sieve ex_x 0 None = Inr (r, lbs)"
    and i: "Sieve_invert ex_sieve (Arr2 r) None = Inr (Arr2 ex_x)"
    by blast
  have v: "Sieve_transform ex_sieve ex_x 0 None
            = Inr (Matrix 3 [[5, 1, 2], [6, 1, 2]], Matrix 2 [[1, 2], [1, 2]])"
    by (simp add: Sieve_transform.simps ex_defs eval_defs)
  with t have r: "r = Matrix 3 [[5, 1, 2], [6, 1, 2]]" by simp
  from i v show ?thesis unfolding r by simp
qed


section \<open>The growth loop\<close>

lemma candidates_length: "length (candidates e kw k x) \<le> k"
  by (induction k arbitrary: x) (auto split: sum.splits)

lemma fit_loop_result:
  assumes "fit_loop e n s x built = Inr (s', built')"
  shows "layers s' = layers s @ takeWhile (accepts e n)
             (candidates e (kwargs s) (nat (max_layers s - int (length (layers s)))) x)
         \<and> (int (length (layers s')) < max_layers s \<longrightarrow>
              length (layers s') - length (layers s)
                < length (candidates e (kwargs s) (nat (max_layers s - int (length (layers s)))) x)
              \<and> \<not> accepts e n
                  (candidates e (kwargs s) (nat (max_layers s - int (length (layers s)))) x
                    ! (length (layers s') - length (layers s))))
         \<and> built' = built @ take (Suc (length (layers s') - length (layers s)))
             (candidates e (kwargs s) (nat (max_layers s - int (length (layers s)))) x)"
  using assms
proof (induction e n s x built rule: fit_loop.induct)
  case (1 e n s x built)
  let ?k = "nat (max_layers s - int (length (layers s)))"
  show ?case
  proof (cases "int (length (layers s)) < max_layers s")
    case False
    with "1.prems" have "s' = s" "built' = built" by (simp_all add: fit_loop.simps)
    with False show ?thesis by simp
  next
    case True
    then obtain k where k: "?k = Suc k" "k = nat (max_layers s - int (length (layers s @ [undefined])))"
      by (cases ?k) auto
    from "1.prems" True obtain c where c: "SieveLayer_init e (kwargs s) x = Inr c"
      by (subst (asm) fit_loop.simps) (auto split: sum.splits)
    from "1.prems" True c obtain x' where x': "SieveLayer_transform c x = Inr x'"
      by (subst (asm) fit_loop.simps) (auto split: sum.splits)
    from "1.prems" True c x' have n0: "n \<noteq> 0"
      by (subst (asm) fit_loop.simps) (auto split: if_splits)
    have cands: "candidates e (kwargs s) ?k x = c # candidates e (kwargs s) k x'"
      unfolding k(1) by (simp add: c x')
    show ?thesis
    proof (cases "accepts e n c")
      case False
      with "1.prems" True c x' n0 have "s' = s" "built' = built @ [c]"
        by (subst (asm) fit_loop.simps, simp)+
      with False True show ?thesis by (simp add: cands)
    next
      case acc: True
      from "1.prems" True c x' n0 acc obtain nv where nv: "n_variables s = Some nv"
        by (subst (asm) fit_loop.simps) (auto split: option.splits)
      from "1.prems" True c x' n0 acc nv obtain st where st: "fit_x_stats x' [0..<nv] = Inr st"
        by (subst (asm) fit_loop.simps) (auto split: sum.splits)
      let ?s2 = "s\<lparr>layers := layers s @ [c], x_stats := st\<rparr>"
      from "1.prems" True c x' n0 acc nv st
      have r: "fit_loop e n ?s2 x' (built @ [c]) = Inr (s', built')"
        by (subst (asm) fit_loop.simps) simp
      have k2: "nat (max_layers s - int (length (layers ?s2))) = k"
        using k by simp
      have sel: "kwargs ?s2 = kwargs s" "max_layers ?s2 = max_layers s" by simp_all
      note ih = "1.IH" [OF True c x' n0 acc nv st r, unfolded sel k2]
      from ih
      have ih1: "layers s' = layers ?s2 @ takeWhile (accepts e n) (candidates e (kwargs s) k x')"
        and ih2: "int (length (layers s')) < max_layers s \<longrightarrow>
              length (layers s') - length (layers ?s2) < length (candidates e (kwargs s) k x')
              \<and> \<not> accepts e n (candidates e (kwargs s) k x' ! (length (layers s') - length (layers ?s2)))"
        and ih3: "built' = (built @ [c]) @ take (Suc (length (layers s') - length (layers ?s2)))
                    (candidates e (kwargs s) k x')"
        by blast+
      from ih1 have l1: "layers s' = layers s @ takeWhile (accepts e n) (candidates e (kwargs s) ?k x)"
        by (simp add: cands acc)
      from ih1 have len: "length (layers s') - length (layers s)
                            = Suc (length (layers s') - length (layers ?s2))"
        by simp
      from ih2 have l2: "int (length (layers s')) < max_layers s \<longrightarrow>
              length (layers s') - length (layers s) < length (candidates e (kwargs s) ?k x)
              \<and> \<not> accepts e n (candidates e (kwargs s) ?k x ! (length (layers s') - length (layers s)))"
        unfolding cands len by simp
      from ih3 have l3: "built' = built @ take (Suc (length (layers s') - length (layers s)))
             (candidates e (kwargs s) ?k x)"
        unfolding cands len by simp
      from l1 l2 l3 show ?thesis by blast
    qed
  qed
qed

lemma Sieve_fit_run_result:
  assumes "Sieve_fit_run e s x = Inr (s', built)"
  shows "layers s' = layers s @ takeWhile (accepts e (n_rows x))
             (candidates e (kwargs s) (nat (max_layers s - int (length (layers s)))) x)"
    and "int (length (layers s')) < max_layers s \<Longrightarrow>
           length (layers s') - length (layers s)
             < length (candidates e (kwargs s) (nat (max_layers s - int (length (layers s)))) x)
           \<and> \<not> accepts e (n_rows x)
               (candidates e (kwargs s) (nat (max_layers s - int (length (layers s)))) x
                 ! (length (layers s') - length (layers s)))"
    and "built = take (Suc (length (layers s') - length (layers s)))
             (candidates e (kwargs s) (nat (max_layers s - int (length (layers s)))) x)"
proof -
  let ?s0 = "s\<lparr>n_variables := Some (n_cols x)\<rparr>"
  have sel: "layers ?s0 = layers s" "kwargs ?s0 = kwargs s" "max_layers ?s0 = max_layers s"
    by simp_all
  note r = fit_loop_result [OF assms [unfolded Sieve_fit_run_def], unfolded sel]
  from r show "layers s' = layers s @ takeWhile (accepts e (n_rows x))
             (candidates e (kwargs s) (nat (max_layers s - int (length (layers s)))) x)"
    by (rule conjunct1)
  from r show "int (length (layers s')) < max_layers s \<Longrightarrow>
           length (layers s') - length (layers s)
             < length (candidates e (kwargs s) (nat (max_layers s - int (length (layers s)))) x)
           \<and> \<not> accepts e (n_rows x)
               (candidates e (kwargs s) (nat (max_layers s - int (length (layers s)))) x
                 ! (length (layers s') - length (layers s)))"
    by blast
  from r have "built = [] @ take (Suc (length (layers s') - length (layers s)))
             (candidates e (kwargs s) (nat (max_layers s - int (length (layers s)))) x)"
    by blast
  then show "built = take (Suc (length (layers s') - length (layers s)))
             (candidates e (kwargs s) (nat (max_layers s - int (length (layers s)))) x)"
    by simp
qed

lemma Sieve_fit_run_fit:
  "Sieve_fit_run e s x = Inr (s', built) \<Longrightarrow> Sieve_fit e s x = Inr s'"
  by (simp add: Sieve_fit_def)

lemma Sieve_fit_runD:
  assumes "Sieve_fit e s x = Inr s'"
  shows "\<exists>built. Sieve_fit_run e s x = Inr (s', built)"
  using assms by (auto simp: Sieve_fit_def split: sum.splits)

lemma Sieve_fit_result:
  assumes "Sieve_fit e s x = Inr s'"
  shows "layers s' = layers s @ takeWhile (accepts e (n_rows x))
             (candidates e (kwargs s) (nat (max_layers s - int (length (layers s)))) x)"
  using Sieve_fit_runD [OF assms] Sieve_fit_run_result(1) by blast

lemma takeWhile_stops:
  assumes "j < length xs" and "\<not> P (xs ! j)"
  shows "length (takeWhile P xs) \<le> j"
proof (rule ccontr)
  assume "\<not> length (takeWhile P xs) \<le> j"
  then have j: "j < length (takeWhile P xs)" by simp
  then have "takeWhile P xs ! j \<in> set (takeWhile P xs)" by (rule nth_mem)
  then have "P (takeWhile P xs ! j)" by (rule set_takeWhileD [THEN conjunct2])
  with j assms(2) show False by (simp add: takeWhile_nth)
qed

lemma shape_np_array_T:
  assumes "\<forall>c \<in> set cs. length c = n"
  shows "shape (np_array_T cs) = (if cs = [] then [0] else [n, length cs])"
proof (cases "cs = []")
  case True
  then show ?thesis by simp
next
  case False
  from np_array_T_rect [OF False assms] False show ?thesis by (simp add: n_rows_def)
qed

lemma ex_fit_run:
  "Sieve_fit_run ex_ext (Sieve_init 5 None) ex_x = Inr (ex_sieve, [ex_layer0, ex_layer1, ex_layer2])"
  by (simp add: Sieve_fit_run_def Sieve_init_def fit_loop.simps ex_ext_def
      SieveLayer_init_def mask_nonneg_def accepts_def float_lb_def np_bincount_def upt_rec
      ex_layer2_def ex_defs eval_defs)

lemma ex_candidates: "candidates ex_ext None 5 ex_x ! 2 = ex_layer2"
  by (simp add: eval_nat_numeral ex_ext_def SieveLayer_init_def
      mask_nonneg_def upt_rec ex_layer2_def ex_defs eval_defs)

lemma ex_rejected:
  "\<not> fl_sub ex_ext (cx_tc (corex ex_layer2)) (float_lb ex_ext ex_layer2)
       > fl_div ex_ext 1 (real (n_rows ex_x))"
  by (simp add: ex_ext_def float_lb_def ex_layer2_def ex_defs n_rows_def)

text \<open>
  C2. When \<^verbatim>\<open>fit(x)\<close> returns, the layers it has appended are the candidates of the loop
  up to the first one that fails the test \<^verbatim>\<open>tc - lb > 1. / n_samples\<close>, computed in
  Python's float arithmetic: every appended layer passes the test. If the loop stopped below
  \<open>max_layers\<close>, the candidate that came next failed the test, was not appended, and is
  the last layer that was constructed; otherwise the appended layers are all the layers
  that were constructed.
\<close>

theorem fit_appends_iff_accepted:
  assumes "Sieve_fit_run e s x = Inr (s', built)"
  shows "Sieve_fit e s x = Inr s'
         \<and> layers s' = layers s @ takeWhile (accepts e (n_rows x))
             (candidates e (kwargs s) (nat (max_layers s - int (length (layers s)))) x)
         \<and> (\<forall>c \<in> set (drop (length (layers s)) (layers s')).
               fl_sub e (cx_tc (corex c)) (float_lb e c) > fl_div e 1 (real (n_rows x)))
         \<and> (int (length (layers s')) < max_layers s \<longrightarrow>
              length (layers s') - length (layers s)
                < length (candidates e (kwargs s) (nat (max_layers s - int (length (layers s)))) x)
              \<and> \<not> fl_sub e
                    (cx_tc (corex
                      (candidates e (kwargs s) (nat (max_layers s - int (length (layers s)))) x
                        ! (length (layers s') - length (layers s)))))
                    (float_lb e
                      (candidates e (kwargs s) (nat (max_layers s - int (length (layers s)))) x
                        ! (length (layers s') - length (layers s))))
                  > fl_div e 1 (real (n_rows x))
              \<and> built = drop (length (layers s)) (layers s')
                   @ [candidates e (kwargs s) (nat (max_layers s - int (length (layers s)))) x
                        ! (length (layers s') - length (layers s))])
         \<and> (\<not> int (length (layers s')) < max_layers s \<longrightarrow>
              built = drop (length (layers s)) (layers s'))"
proof -
  let ?k = "nat (max_layers s - int (length (layers s)))"
  let ?cands = "candidates e (kwargs s) ?k x"
  let ?new = "takeWhile (accepts e (n_rows x)) ?cands"
  note r = Sieve_fit_run_result [OF assms]
  have new: "drop (length (layers s)) (layers s') = ?new" by (simp add: r(1))
  have idx: "length (layers s') - length (layers s) = length ?new" by (simp add: r(1))
  have pre: "take (length ?new) ?cands = ?new" by (simp add: takeWhile_eq_take [symmetric])
  have a: "\<forall>c \<in> set (drop (length (layers s)) (layers s')).
               fl_sub e (cx_tc (corex c)) (float_lb e c) > fl_div e 1 (real (n_rows x))"
    unfolding new by (auto dest: set_takeWhileD simp: accepts_def)
  have b: "length ?new < length ?cands \<and> \<not> accepts e (n_rows x) (?cands ! length ?new)
           \<and> built = ?new @ [?cands ! length ?new]"
    if lt: "int (length (layers s')) < max_layers s"
  proof -
    from r(2) [OF lt] have 1: "length ?new < length ?cands"
      and 2: "\<not> accepts e (n_rows x) (?cands ! length ?new)"
      unfolding idx by blast+
    from r(3) have "built = take (Suc (length ?new)) ?cands" unfolding idx .
    also have "\<dots> = take (length ?new) ?cands @ [?cands ! length ?new]"
      using 1 by (rule take_Suc_conv_app_nth)
    finally have "built = ?new @ [?cands ! length ?new]" unfolding pre .
    with 1 2 show ?thesis by blast
  qed
  have c: "built = ?new" if ge: "\<not> int (length (layers s')) < max_layers s"
  proof -
    have "length ?cands \<le> ?k" by (rule candidates_length)
    moreover from ge have "?k \<le> length ?new" by (simp add: r(1))
    moreover have "length ?new \<le> length ?cands" by (rule length_takeWhile_le)
    ultimately have eq: "length ?new = length ?cands" by simp
    have t: "take (length ?cands) ?cands = ?cands" by simp
    from pre [unfolded eq t] have nc: "?cands = ?new" .
    from r(3) have "built = take (Suc (length ?new)) ?cands" unfolding idx .
    then have "built = ?cands" unfolding eq by simp
    then show ?thesis using nc by (simp only:)
  qed
  from Sieve_fit_run_fit [OF assms] r(1) a b c show ?thesis
    unfolding new idx accepts_def by blast
qed

theorem fit_appends_iff_accepted_witness:
  "Sieve_fit_run ex_ext (Sieve_init 5 None) ex_x
     = Inr (ex_sieve, [ex_layer0, ex_layer1, ex_layer2])
   \<and> Sieve_fit ex_ext (Sieve_init 5 None) ex_x = Inr ex_sieve
   \<and> layers ex_sieve = takeWhile (accepts ex_ext (n_rows ex_x)) (candidates ex_ext None 5 ex_x)
   \<and> layers ex_sieve = [ex_layer0, ex_layer1]
   \<and> candidates ex_ext None 5 ex_x ! 2 = ex_layer2
   \<and> \<not> fl_sub ex_ext (cx_tc (corex ex_layer2)) (float_lb ex_ext ex_layer2)
        > fl_div ex_ext 1 (real (n_rows ex_x))"
proof -
  have l: "layers ex_sieve = [ex_layer0, ex_layer1]" by (simp add: ex_sieve_def)
  note t = fit_appends_iff_accepted [OF ex_fit_run]
  from t have "Sieve_fit ex_ext (Sieve_init 5 None) ex_x = Inr ex_sieve"
    by (rule conjunct1)
  moreover from t
  have "layers ex_sieve = layers (Sieve_init 5 None) @ takeWhile (accepts ex_ext (n_rows ex_x))
          (candidates ex_ext (kwargs (Sieve_init 5 None))
            (nat (max_layers (Sieve_init 5 None) - int (length (layers (Sieve_init 5 None))))) ex_x)"
    by (rule conjunct2 [THEN conjunct1])
  then have "layers ex_sieve = takeWhile (accepts ex_ext (n_rows ex_x)) (candidates ex_ext None 5 ex_x)"
    by (simp add: Sieve_init_def)
  ultimately show ?thesis using ex_fit_run l ex_candidates ex_rejected by blast
qed

text \<open>
  C5 (as amended). For a sieve that holds at most \<open>max_layers\<close> layers before the call
  (a freshly constructed one with \<open>max_layers \<ge> 0\<close> does), when \<^verbatim>\<open>fit(x)\<close> returns
  the number of layers is at most \<open>max_layers\<close>; and if the candidate of iteration
  \<open>j\<close> fails the acceptance test, at most \<open>j\<close> layers have been appended, which is
  strictly fewer than \<open>max_layers\<close> allows.
\<close>

theorem fit_layers_bounded:
  assumes "Sieve_fit e s x = Inr s'" and "int (length (layers s)) \<le> max_layers s"
  shows "int (length (layers s')) \<le> max_layers s
         \<and> (\<forall>j < length (candidates e (kwargs s) (nat (max_layers s - int (length (layers s)))) x).
               \<not> accepts e (n_rows x)
                   (candidates e (kwargs s) (nat (max_layers s - int (length (layers s)))) x ! j)
               \<longrightarrow> length (layers s') \<le> length (layers s) + j
                   \<and> int (length (layers s')) < max_layers s)"
proof -
  let ?k = "nat (max_layers s - int (length (layers s)))"
  let ?cands = "candidates e (kwargs s) ?k x"
  let ?new = "takeWhile (accepts e (n_rows x)) ?cands"
  have r: "layers s' = layers s @ ?new" by (rule Sieve_fit_result [OF assms(1)])
  have ck: "length ?cands \<le> ?k" by (rule candidates_length)
  have "length ?new \<le> length ?cands" by (rule length_takeWhile_le)
  with ck have "int (length ?new) \<le> max_layers s - int (length (layers s))"
    using assms(2) by linarith
  then have bound: "int (length (layers s')) \<le> max_layers s"
    by (simp add: r)
  have stop: "length (layers s') \<le> length (layers s) + j \<and> int (length (layers s')) < max_layers s"
    if j: "j < length ?cands" and rej: "\<not> accepts e (n_rows x) (?cands ! j)" for j
  proof -
    from takeWhile_stops [of j ?cands "accepts e (n_rows x)", OF j rej]
    have "length ?new \<le> j" .
    moreover from j ck have "int j < max_layers s - int (length (layers s))" by linarith
    ultimately show ?thesis by (simp add: r)
  qed
  from bound stop show ?thesis by blast
qed

theorem fit_layers_bounded_witness:
  "Sieve_fit ex_ext (Sieve_init 5 None) ex_x = Inr ex_sieve
   \<and> \<not> accepts ex_ext (n_rows ex_x) (candidates ex_ext None 5 ex_x ! 2)
   \<and> int (length (layers ex_sieve)) \<le> 5
   \<and> length (layers ex_sieve) \<le> 2
   \<and> int (length (layers ex_sieve)) < 5"
proof -
  have h: "int (length (layers (Sieve_init 5 None))) \<le> max_layers (Sieve_init 5 None)"
    by (simp add: Sieve_init_def)
  have len: "length (candidates ex_ext None 5 ex_x) = 5"
    by (simp add: eval_nat_numeral ex_ext_def SieveLayer_init_def
        mask_nonneg_def upt_rec ex_defs eval_defs)
  have rej: "\<not> accepts ex_ext (n_rows ex_x) (candidates ex_ext None 5 ex_x ! 2)"
    unfolding ex_candidates accepts_def by (rule ex_rejected)
  have two: "2 < length (candidates ex_ext None 5 ex_x)" by (simp add: len)
  from fit_layers_bounded [OF ex_fit h]
  have b: "int (length (layers ex_sieve)) \<le> 5"
    and a: "\<forall>j < length (candidates ex_ext None 5 ex_x).
              \<not> accepts ex_ext (n_rows ex_x) (candidates ex_ext None 5 ex_x ! j)
              \<longrightarrow> length (layers ex_sieve) \<le> 0 + j \<and> int (length (layers ex_sieve)) < 5"
    by (simp_all add: Sieve_init_def)
  from a two rej have "length (layers ex_sieve) \<le> 0 + 2 \<and> int (length (layers ex_sieve)) < 5"
    by blast
  with b rej ex_fit show ?thesis by simp
qed

text \<open>
  C5 as stated fails for a negative \<open>max_layers\<close>, which \<^verbatim>\<open>__init__\<close> stores as it
  is: the loop is not entered and \<^verbatim>\<open>fit\<close> returns with no layer, which is more than
  \<open>max_layers = -3\<close>.
\<close>

theorem fit_layers_bounded_counterexample:
  "Sieve_fit ex_ext (Sieve_init (- 3) None) ex_x
     = Inr ((Sieve_init (- 3) None)\<lparr>n_variables := Some 1\<rparr>)
   \<and> max_layers ((Sieve_init (- 3) None)\<lparr>n_variables := Some 1\<rparr>) = - 3
   \<and> length (layers ((Sieve_init (- 3) None)\<lparr>n_variables := Some 1\<rparr>)) = 0
   \<and> \<not> int (length (layers ((Sieve_init (- 3) None)\<lparr>n_variables := Some 1\<rparr>)))
        \<le> max_layers ((Sieve_init (- 3) None)\<lparr>n_variables := Some 1\<rparr>)"
  by (simp add: Sieve_fit_def Sieve_fit_run_def Sieve_init_def fit_loop.simps ex_x_def)


text \<open>
  C8 (as amended). After a freshly constructed sieve is fitted on \<open>n_samples\<close> rows, with
  the Corex of every candidate holding one label per row, \<^verbatim>\<open>labels\<close> has shape
  \<open>(n_samples, number_of_layers)\<close> if at least one layer was accepted, and is the empty
  1-D array of shape \<open>(0,)\<close> if none was.
\<close>

theorem labels_shape:
  assumes "Sieve_fit e (Sieve_init ml kw) x = Inr s'"
    and "list_all (\<lambda>c. length (labels c) = n_rows x) (candidates e kw (nat ml) x)"
  shows "shape (Sieve_labels s')
           = (if layers s' = [] then [0] else [n_rows x, length (layers s')])"
proof -
  from Sieve_fit_result [OF assms(1)]
  have r: "layers s' = takeWhile (accepts e (n_rows x)) (candidates e kw (nat ml) x)"
    by (simp add: Sieve_init_def)
  have "\<forall>c \<in> set (layers s'). length (labels c) = n_rows x"
    using assms(2) unfolding r by (auto simp: list_all_iff dest: set_takeWhileD)
  then have "\<forall>c \<in> set (map labels (layers s')). length c = n_rows x" by simp
  from shape_np_array_T [OF this] show ?thesis by (simp add: Sieve_labels_def)
qed

theorem labels_shape_witness:
  "Sieve_fit ex_ext (Sieve_init 5 None) ex_x = Inr ex_sieve
   \<and> n_rows ex_x = 2 \<and> length (layers ex_sieve) = 2
   \<and> shape (Sieve_labels ex_sieve) = [2, 2]"
proof -
  have h: "list_all (\<lambda>c. length (labels c) = n_rows ex_x) (candidates ex_ext None (nat 5) ex_x)"
    by (simp add: eval_nat_numeral ex_ext_def SieveLayer_init_def
        mask_nonneg_def upt_rec ex_defs eval_defs)
  have l: "length (layers ex_sieve) = 2" "n_rows ex_x = 2"
    by (simp_all add: ex_sieve_def ex_x_def n_rows_def)
  from labels_shape [OF ex_fit h] l ex_fit show ?thesis by auto
qed

text \<open>
  C8 as stated fails. With no accepted layer the shape is \<open>(0,)\<close>, not
  \<open>(n_samples, 0)\<close>: the first candidate on \<open>rej_x\<close> (two rows) is rejected.
\<close>

theorem labels_shape_counterexample:
  "Sieve_fit ex_ext (Sieve_init 5 None) rej_x = Inr ((Sieve_init 5 None)\<lparr>n_variables := Some 3\<rparr>)
   \<and> n_rows rej_x = 2
   \<and> length (layers ((Sieve_init 5 None)\<lparr>n_variables := Some 3\<rparr>)) = 0
   \<and> shape (Sieve_labels ((Sieve_init 5 None)\<lparr>n_variables := Some 3\<rparr>)) = [0]
   \<and> shape (Sieve_labels ((Sieve_init 5 None)\<lparr>n_variables := Some 3\<rparr>)) \<noteq> [2, 0]"
  by (simp add: Sieve_fit_def Sieve_fit_run_def Sieve_init_def fit_loop.simps ex_ext_def
      SieveLayer_init_def mask_nonneg_def accepts_def float_lb_def upt_rec rej_x_def
      Sieve_labels_def ex_defs eval_defs)


section \<open>Prediction\<close>






















section \<open>Bounds\<close>

lemma layer_bounds_le:
  assumes "\<forall>r \<in> set (remainders ly). rm_mi r \<le> 2 * rm_h r"
  shows "layer_lb ly \<le> layer_ub ly"
  unfolding layer_lb_def layer_ub_def using assms by (intro sum_list_mono) simp

text \<open>
  C4. If every Remainder of every layer of a sieve has \<open>mi \<le> 2 * h\<close>, then \<open>lb \<le> ub\<close>
  holds for every layer (\<open>lb\<close> the sum of the \<open>mi\<close>, \<open>ub\<close> the sum of the \<open>2 * h\<close>) and
  for the sieve (the sums of the layers' values).
\<close>

theorem bounds_ordered:
  assumes "\<forall>ly \<in> set (layers s). \<forall>r \<in> set (remainders ly). rm_mi r \<le> 2 * rm_h r"
  shows "(\<forall>ly \<in> set (layers s). layer_lb ly \<le> layer_ub ly) \<and> Sieve_lb s \<le> Sieve_ub s"
proof -
  have each: "\<forall>ly \<in> set (layers s). layer_lb ly \<le> layer_ub ly"
    using assms layer_bounds_le by blast
  have "sum_list (map layer_lb (layers s)) \<le> sum_list (map layer_ub (layers s))"
    using each by (intro sum_list_mono) simp
  with each show ?thesis by (simp add: Sieve_lb_def Sieve_ub_def)
qed

theorem bounds_ordered_witness:
  "layer_lb ex_layer0 \<le> layer_ub ex_layer0 \<and> layer_lb ex_layer1 \<le> layer_ub ex_layer1
   \<and> Sieve_lb ex_sieve = 3 / 4 \<and> Sieve_ub ex_sieve = 6 \<and> Sieve_lb ex_sieve \<le> Sieve_ub ex_sieve"
proof -
  have h: "\<forall>ly \<in> set (layers ex_sieve). \<forall>r \<in> set (remainders ly). rm_mi r \<le> 2 * rm_h r"
    by (simp add: ex_sieve_def ex_layer0_def ex_layer1_def id_rem_def)
  have v: "Sieve_lb ex_sieve = 3 / 4" "Sieve_ub ex_sieve = 6"
    by (simp_all add: Sieve_lb_def Sieve_ub_def layer_lb_def layer_ub_def ex_sieve_def
        ex_layer0_def ex_layer1_def id_rem_def)
  show ?thesis using bounds_ordered [OF h] v by (simp add: ex_sieve_def)
qed

section \<open>A sieve without layers\<close>

text \<open>
  C9. For a sieve whose layer list is empty, \<^verbatim>\<open>transform(x)\<close> and \<^verbatim>\<open>invert(x)\<close>
  (default arguments) return nothing for any input: \<^verbatim>\<open>transform\<close> reads
  \<^verbatim>\<open>layers[0]\<close>, \<^verbatim>\<open>invert\<close> reads \<^verbatim>\<open>layers[-1]\<close>, and both raise IndexError.
\<close>

theorem no_layers_no_result:
  "Sieve_transform (s\<lparr>layers := []\<rparr>) x 0 None = Inl IndexError
   \<and> Sieve_invert (s\<lparr>layers := []\<rparr>) a None = Inl IndexError
   \<and> py_index (layers (s\<lparr>layers := []\<rparr>)) 0 = Inl IndexError
   \<and> py_index (layers (s\<lparr>layers := []\<rparr>)) (- 1) = Inl IndexError"
  by (simp add: Sieve_transform.simps Sieve_invert.simps py_index_def)

end
